theory Spec2Isabelle
  imports Complex_Main "HOL-Library.Word"
begin

unbundle bit_operations_syntax

section \<open>The dual motor controller of main.c\<close>

text \<open>
  The firmware regulates two DC motors on an ATmega328P. Five interrupt handlers write
  flags and latched values, and the loop of \<open>main\<close> polls them.

  Conventions of the embedding:
  \<^item> \<open>uint8_t\<close>, \<open>int8_t\<close>, \<open>uint16_t\<close> and \<open>uint32_t\<close> are words of that width;
    a flag is tested as C tests it, against 0.
  \<^item> a value of type \<open>float\<close> is a real number, and the rounding of single precision
    is a function \<open>float_of\<close> from the exact result of an operation to the \<open>float\<close> that
    the operation returns. It is a parameter of the model: the theorems hold for every
    rounding, or say what they need of it (\<open>single_precision\<close>). The constants of the
    source are exact in single precision and are not rounded, except 0.9 and the sample
    time \<open>1 / 62.5\<close>. Infinities and NaN are not represented.
  \<^item> a pointer argument that the source checks against \<open>NULL\<close> is an \<open>option\<close>.
  \<^item> \<open>pid_t\<close> and the functions of \<open>pid.h\<close> are not part of main.c: the controller
    state is a type parameter and the two functions that the loop calls are taken as
    parameters. They and \<open>float_of\<close> make up the \<open>platform\<close>.
  \<^item> the loop of \<open>main\<close> is cut into steps at the statements of its body; a call of
    one of the \<open>do_\<close> functions is one step. An interrupt handler runs to completion
    between two steps. A step of \<open>main_step\<close> reads and writes a global as a whole and
    has no interrupt inside. The two statements of \<open>main\<close> for which that matters, the
    completion check with its four byte loads of the duration counter and
    \<open>do_parse_command\<close> with its second load of the command buffer, are modelled once
    more with the interrupts inside (\<open>completion_check_bytewise\<close>,
    \<open>do_parse_command_interrupted\<close>).
\<close>

subsection \<open>Types\<close>

type_synonym float = real

record hall_encoder_t =
  timer_value :: "32 word"
  buffered_timer_value :: "32 word"
  current_rps :: float
  is_measurement_ready :: "8 word"

record 'pid motor_t =
  hall_encoder :: hall_encoder_t
  pid :: 'pid
  setpoint :: float

datatype command_e =
  COMMAND_FORWARD | COMMAND_BACKWARD | COMMAND_LEFT | COMMAND_RIGHT | COMMAND_STOP
  | COMMAND_UNKNOWN

text \<open>
  What main.c takes from outside: the two entry points of pid.h that it calls after
  initialisation (\<open>PID_Advance(&pid, dt, error)\<close> returns the controller output and
  updates the controller, \<open>PID_ClearAccumulatedValues(&pid)\<close> updates the controller),
  and the rounding of the \<open>float\<close> arithmetic.
\<close>

record 'pid platform =
  PID_Advance :: "'pid \<Rightarrow> float \<Rightarrow> float \<Rightarrow> float \<times> 'pid"
  PID_ClearAccumulatedValues :: "'pid \<Rightarrow> 'pid"
  float_of :: "real \<Rightarrow> float"

text \<open>
  The position of \<open>main\<close> in its loop. \<open>L_rps1\<close> is the top of the loop body; a label
  ending in \<open>_clr\<close>, \<open>_run\<close> or \<open>_tmr\<close> stands before the assignment that follows a call
  inside an \<open>if\<close>. \<open>L_fatal\<close> is the loop of \<open>do_handle_fatal_error\<close>.
\<close>

datatype label =
  L_rps1 | L_rps1_clr | L_rps2 | L_rps2_clr | L_pid | L_pid_clr | L_cmd | L_cmd_clr
  | L_done | L_done_run | L_done_tmr | L_fatal

text \<open>
  The globals of main.c, the I/O registers it writes, and the position of \<open>main\<close>.
  \<open>TCNT0\<close> is counted by the hardware; the field holds what the program last wrote.
\<close>

record 'pid mcu =
  pulse_tick_counter_high_nibble :: "16 word"
  g_motor_1 :: "'pid motor_t"
  g_motor_2 :: "'pid motor_t"
  g_flag_pid :: "8 word"
  g_command_timer_pids :: "32 word"
  g_flag_command_received :: "8 word"
  g_command_buffer :: "8 word"
  g_flag_command_running :: "8 word"
  PORTB :: "8 word"
  PORTD :: "8 word"
  OCR0A :: "8 word"
  OCR0B :: "8 word"
  TCNT0 :: "8 word"
  pc :: label

text \<open>
  What happens next: \<open>main\<close> executes one step, or an interrupt is served. An interrupt
  carries what its handler reads from the hardware: \<open>TCNT1\<close> for the encoder edges,
  \<open>UCSR0A\<close> and \<open>UDR0\<close> for the receiver.
\<close>

datatype event =
  MainStep
  | INT0_vect "16 word"
  | INT1_vect "16 word"
  | TIMER1_OVF_vect
  | TIMER2_COMPA_vect
  | USART_RX_vect "8 word" "8 word"

subsection \<open>Macros and constants\<close>

definition SET_BIT :: "8 word \<Rightarrow> nat \<Rightarrow> 8 word" where
  "SET_BIT REG BIT = REG OR push_bit BIT 1"

definition CLR_BIT :: "8 word \<Rightarrow> nat \<Rightarrow> 8 word" where
  "CLR_BIT REG BIT = REG AND NOT (push_bit BIT 1)"

definition TGL_BIT :: "8 word \<Rightarrow> nat \<Rightarrow> 8 word" where
  "TGL_BIT REG BIT = REG XOR push_bit BIT 1"

definition IS_BIT_SET :: "8 word \<Rightarrow> nat \<Rightarrow> bool" where
  "IS_BIT_SET REG BIT = (REG AND push_bit BIT 1 \<noteq> 0)"

text \<open>Bit numbers of the device header (avr/io.h for the ATmega328P).\<close>

definition PORTB0 :: nat where "PORTB0 = 0"
definition PORTB1 :: nat where "PORTB1 = 1"
definition PORTB2 :: nat where "PORTB2 = 2"
definition PORTB5 :: nat where "PORTB5 = 5"
definition PORTD7 :: nat where "PORTD7 = 7"
definition RXC0 :: nat where "RXC0 = 7"

definition F_CPU :: float where "F_CPU = 16000000"
definition SAMPLING_FREQUENCY :: float where "SAMPLING_FREQUENCY = 62.5"
definition SAMPLE_TIME_S :: real where "SAMPLE_TIME_S = 1 / SAMPLING_FREQUENCY"
definition RPS_ALPHA :: float where "RPS_ALPHA = 0.5"
definition PULSES_PER_ROTATION :: float where "PULSES_PER_ROTATION = 245"
definition RPS_UPPER_DISCARD_LIMIT :: float where "RPS_UPPER_DISCARD_LIMIT = 10"
definition UINT32_MAX :: "32 word" where "UINT32_MAX = 0xFFFFFFFF"
definition command_duration_pids :: "32 word" where "command_duration_pids = 2 * 188"
definition motor_on_rps :: float where "motor_on_rps = 1.0"

subsection \<open>Encoder capture and the RPS estimate\<close>

text \<open>
  \<open>hall_encoder_do_save_timer_value\<close>: \<open>None\<close> is the \<open>NULL\<close> handle, for which the
  source enters \<open>do_handle_fatal_error\<close> and never comes back. The arguments after the
  handle are the two values the function reads: \<open>TCNT1\<close> and the overflow counter.
\<close>

definition hall_encoder_do_save_timer_value ::
  "hall_encoder_t option \<Rightarrow> 16 word \<Rightarrow> 16 word \<Rightarrow> hall_encoder_t option" where
  "hall_encoder_do_save_timer_value hEncoder tcnt1 high_nibble =
     (case hEncoder of
        None \<Rightarrow> None
      | Some e \<Rightarrow>
          Some (e\<lparr>buffered_timer_value := timer_value e,
                  timer_value := ucast tcnt1 OR push_bit 16 (ucast high_nibble),
                  is_measurement_ready := 1\<rparr>))"

text \<open>
  The \<open>uint32_t\<close> expression that \<open>do_update_rps\<close> assigns to \<open>ticks\<close>, before its
  conversion to \<open>float\<close>.
\<close>

definition tick_interval :: "hall_encoder_t \<Rightarrow> 32 word" where
  "tick_interval e =
     (if buffered_timer_value e > timer_value e
      then timer_value e + (UINT32_MAX - buffered_timer_value e)
      else timer_value e - buffered_timer_value e)"

text \<open>
  \<open>do_update_rps\<close>, with the rounding \<open>fl\<close> of each \<open>float\<close> operation: the conversion
  of the interval, the constant 0.9 (\<open>double\<close> is the 32-bit format in avr-gcc), the
  product, the quotient, and the two products and the sum of the filter.
\<close>

definition do_update_rps ::
  "(real \<Rightarrow> float) \<Rightarrow> hall_encoder_t option \<Rightarrow> hall_encoder_t option" where
  "do_update_rps fl hEncoder =
     (case hEncoder of
        None \<Rightarrow> None
      | Some e \<Rightarrow>
          (let ticks = fl (real (unat (tick_interval e))) in
           if ticks < fl 0.9 then Some e
           else
             let new_rps = fl (F_CPU / fl (ticks * PULSES_PER_ROTATION)) in
             if new_rps < RPS_UPPER_DISCARD_LIMIT
             then Some (e\<lparr>current_rps :=
                            fl (fl (RPS_ALPHA * current_rps e)
                                + fl ((1 - RPS_ALPHA) * new_rps))\<rparr>)
             else Some e))"

text \<open>
  What the estimate needs of the rounding: 0 is exact, and a value whose magnitude is in
  the range of the normal numbers of single precision is rounded with a relative error
  of at most \<open>2^-23\<close>, one unit in the last of its 24 significant bits. Rounding to
  nearest and truncation both stay within it.
\<close>

definition single_precision :: "(real \<Rightarrow> float) \<Rightarrow> bool" where
  "single_precision fl \<longleftrightarrow>
     fl 0 = 0
     \<and> (\<forall>x. 1 / 2 ^ 126 \<le> \<bar>x\<bar> \<and> \<bar>x\<bar> \<le> 2 ^ 127 \<longrightarrow> \<bar>fl x - x\<bar> \<le> \<bar>x\<bar> / 2 ^ 23)"

subsection \<open>PWM compare value and the control step\<close>

definition calculate_oc_value_from_dc :: "32 word \<Rightarrow> 8 word" where
  "calculate_oc_value_from_dc duty_cycle = ucast ((255 * (100 - duty_cycle)) div 100)"

text \<open>
  The cast \<open>(uint32_t)input\<close> of a \<open>float\<close>: the fraction is dropped. C leaves the
  cast undefined for a value outside the range of \<open>uint32_t\<close>; here it wraps.
\<close>

definition float_to_uint32 :: "float \<Rightarrow> 32 word" where
  "float_to_uint32 x = word_of_int (if 0 \<le> x then \<lfloor>x\<rfloor> else - \<lfloor>- x\<rfloor>)"

definition do_advance_pids :: "'pid platform \<Rightarrow> 'pid mcu \<Rightarrow> 'pid mcu" where
  "do_advance_pids pf s =
     (let error_1 = float_of pf
            (setpoint (g_motor_1 s) - current_rps (hall_encoder (g_motor_1 s)));
          (input_1, pid_1) =
            PID_Advance pf (pid (g_motor_1 s)) (float_of pf SAMPLE_TIME_S) error_1;
          error_2 = float_of pf
            (setpoint (g_motor_2 s) - current_rps (hall_encoder (g_motor_2 s)));
          (input_2, pid_2) =
            PID_Advance pf (pid (g_motor_2 s)) (float_of pf SAMPLE_TIME_S) error_2
      in s\<lparr>g_motor_1 := (g_motor_1 s)\<lparr>pid := pid_1\<rparr>,
            OCR0B := calculate_oc_value_from_dc (float_to_uint32 input_1),
            g_motor_2 := (g_motor_2 s)\<lparr>pid := pid_2\<rparr>,
            OCR0A := calculate_oc_value_from_dc (float_to_uint32 input_2),
            TCNT0 := 0\<rparr>)"

subsection \<open>Commands\<close>

definition set_motor_direction :: "command_e \<Rightarrow> 'pid mcu \<Rightarrow> 'pid mcu" where
  "set_motor_direction command s =
     (case command of
        COMMAND_FORWARD \<Rightarrow>
          s\<lparr>PORTD := SET_BIT (PORTD s) PORTD7,
            PORTB := SET_BIT (CLR_BIT (CLR_BIT (PORTB s) PORTB1) PORTB0) PORTB2\<rparr>
      | COMMAND_BACKWARD \<Rightarrow>
          s\<lparr>PORTD := CLR_BIT (PORTD s) PORTD7,
            PORTB := CLR_BIT (SET_BIT (SET_BIT (PORTB s) PORTB1) PORTB0) PORTB2\<rparr>
      | COMMAND_LEFT \<Rightarrow>
          s\<lparr>PORTD := SET_BIT (PORTD s) PORTD7,
            PORTB := CLR_BIT (SET_BIT (CLR_BIT (PORTB s) PORTB1) PORTB0) PORTB2\<rparr>
      | COMMAND_RIGHT \<Rightarrow>
          s\<lparr>PORTD := CLR_BIT (PORTD s) PORTD7,
            PORTB := SET_BIT (CLR_BIT (SET_BIT (PORTB s) PORTB1) PORTB0) PORTB2\<rparr>
      | COMMAND_STOP \<Rightarrow>
          s\<lparr>PORTD := CLR_BIT (PORTD s) PORTD7,
            PORTB := CLR_BIT (CLR_BIT (CLR_BIT (PORTB s) PORTB1) PORTB0) PORTB2\<rparr>
      | COMMAND_UNKNOWN \<Rightarrow> s)"

text \<open>
  The statement \<open>g_command_buffer = g_command_buffer & 0x7F\<close>: the \<open>int8_t\<close> is promoted
  to the 16-bit \<open>int\<close> of the AVR with its sign, masked, and stored back.
\<close>

definition mask_command_buffer :: "8 word \<Rightarrow> 8 word" where
  "mask_command_buffer b = ucast ((scast b :: 16 word) AND 0x7F)"

text \<open>
  The \<open>switch\<close> of \<open>do_parse_command\<close> on the (promoted) buffer; the case labels are the
  character constants \<open>'w'\<close>, \<open>'s'\<close>, \<open>'a'\<close>, \<open>'d'\<close>, \<open>'x'\<close>.
\<close>

definition switch_command :: "8 word \<Rightarrow> command_e" where
  "switch_command b =
     (let v = (scast b :: 16 word) in
      if v = 0x77 then COMMAND_FORWARD
      else if v = 0x73 then COMMAND_BACKWARD
      else if v = 0x61 then COMMAND_LEFT
      else if v = 0x64 then COMMAND_RIGHT
      else if v = 0x78 then COMMAND_STOP
      else COMMAND_UNKNOWN)"

definition do_parse_command :: "'pid mcu \<Rightarrow> 'pid mcu" where
  "do_parse_command s =
     (if g_flag_command_running s \<noteq> 0 then s
      else
        let s1 = s\<lparr>g_motor_1 := (g_motor_1 s)\<lparr>setpoint := motor_on_rps\<rparr>,
                   g_motor_2 := (g_motor_2 s)\<lparr>setpoint := motor_on_rps\<rparr>\<rparr>;
            s2 = s1\<lparr>g_command_buffer := mask_command_buffer (g_command_buffer s1)\<rparr>;
            command = switch_command (g_command_buffer s2);
            s3 = set_motor_direction command s2
        in s3\<lparr>g_flag_command_running := 1\<rparr>)"

definition do_on_command_complete :: "'pid platform \<Rightarrow> 'pid mcu \<Rightarrow> 'pid mcu" where
  "do_on_command_complete pf s =
     s\<lparr>g_motor_1 := (g_motor_1 s)\<lparr>setpoint := 0,
          pid := PID_ClearAccumulatedValues pf (pid (g_motor_1 s))\<rparr>,
       g_motor_2 := (g_motor_2 s)\<lparr>setpoint := 0,
          pid := PID_ClearAccumulatedValues pf (pid (g_motor_2 s))\<rparr>,
       OCR0A := 0xFF,
       OCR0B := 0xFF\<rparr>"

subsection \<open>The loop of main\<close>

text \<open>
  One step of the \<open>while (1)\<close> body. The five \<open>if\<close> statements are taken in the order of
  the source; the condition and the call that it guards are one step, each assignment
  after the call is a step of its own.
\<close>

definition main_step :: "'pid platform \<Rightarrow> 'pid mcu \<Rightarrow> 'pid mcu" where
  "main_step pf s =
     (case pc s of
        L_rps1 \<Rightarrow>
          if is_measurement_ready (hall_encoder (g_motor_1 s)) \<noteq> 0
          then (case do_update_rps (float_of pf) (Some (hall_encoder (g_motor_1 s))) of
                  None \<Rightarrow> s\<lparr>pc := L_fatal\<rparr>
                | Some e \<Rightarrow> s\<lparr>g_motor_1 := (g_motor_1 s)\<lparr>hall_encoder := e\<rparr>,
                              pc := L_rps1_clr\<rparr>)
          else s\<lparr>pc := L_rps2\<rparr>
      | L_rps1_clr \<Rightarrow>
          s\<lparr>g_motor_1 := (g_motor_1 s)\<lparr>hall_encoder :=
                (hall_encoder (g_motor_1 s))\<lparr>is_measurement_ready := 0\<rparr>\<rparr>,
            pc := L_rps2\<rparr>
      | L_rps2 \<Rightarrow>
          if is_measurement_ready (hall_encoder (g_motor_2 s)) \<noteq> 0
          then (case do_update_rps (float_of pf) (Some (hall_encoder (g_motor_2 s))) of
                  None \<Rightarrow> s\<lparr>pc := L_fatal\<rparr>
                | Some e \<Rightarrow> s\<lparr>g_motor_2 := (g_motor_2 s)\<lparr>hall_encoder := e\<rparr>,
                              pc := L_rps2_clr\<rparr>)
          else s\<lparr>pc := L_pid\<rparr>
      | L_rps2_clr \<Rightarrow>
          s\<lparr>g_motor_2 := (g_motor_2 s)\<lparr>hall_encoder :=
                (hall_encoder (g_motor_2 s))\<lparr>is_measurement_ready := 0\<rparr>\<rparr>,
            pc := L_pid\<rparr>
      | L_pid \<Rightarrow>
          if g_flag_pid s \<noteq> 0 \<and> g_flag_command_running s \<noteq> 0
          then (do_advance_pids pf s)\<lparr>pc := L_pid_clr\<rparr>
          else s\<lparr>pc := L_cmd\<rparr>
      | L_pid_clr \<Rightarrow> s\<lparr>g_flag_pid := 0, pc := L_cmd\<rparr>
      | L_cmd \<Rightarrow>
          if g_flag_command_received s \<noteq> 0
          then (do_parse_command s)\<lparr>pc := L_cmd_clr\<rparr>
          else s\<lparr>pc := L_done\<rparr>
      | L_cmd_clr \<Rightarrow> s\<lparr>g_flag_command_received := 0, pc := L_done\<rparr>
      | L_done \<Rightarrow>
          if g_flag_command_running s \<noteq> 0
             \<and> g_command_timer_pids s \<ge> command_duration_pids
          then (do_on_command_complete pf s)\<lparr>pc := L_done_run\<rparr>
          else s\<lparr>pc := L_rps1\<rparr>
      | L_done_run \<Rightarrow> s\<lparr>g_flag_command_running := 0, pc := L_done_tmr\<rparr>
      | L_done_tmr \<Rightarrow> s\<lparr>g_command_timer_pids := 0, pc := L_rps1\<rparr>
      | L_fatal \<Rightarrow> s\<lparr>PORTB := TGL_BIT (PORTB s) PORTB5\<rparr>)"

subsection \<open>Interrupt handlers\<close>

definition ISR_INT0_vect :: "16 word \<Rightarrow> 'pid mcu \<Rightarrow> 'pid mcu" where
  "ISR_INT0_vect tcnt1 s =
     (case hall_encoder_do_save_timer_value (Some (hall_encoder (g_motor_1 s))) tcnt1
             (pulse_tick_counter_high_nibble s) of
        None \<Rightarrow> s\<lparr>pc := L_fatal\<rparr>
      | Some e \<Rightarrow> s\<lparr>g_motor_1 := (g_motor_1 s)\<lparr>hall_encoder := e\<rparr>\<rparr>)"

definition ISR_INT1_vect :: "16 word \<Rightarrow> 'pid mcu \<Rightarrow> 'pid mcu" where
  "ISR_INT1_vect tcnt1 s =
     (case hall_encoder_do_save_timer_value (Some (hall_encoder (g_motor_2 s))) tcnt1
             (pulse_tick_counter_high_nibble s) of
        None \<Rightarrow> s\<lparr>pc := L_fatal\<rparr>
      | Some e \<Rightarrow> s\<lparr>g_motor_2 := (g_motor_2 s)\<lparr>hall_encoder := e\<rparr>\<rparr>)"

definition ISR_TIMER1_OVF_vect :: "'pid mcu \<Rightarrow> 'pid mcu" where
  "ISR_TIMER1_OVF_vect s =
     s\<lparr>pulse_tick_counter_high_nibble := pulse_tick_counter_high_nibble s + 1\<rparr>"

definition ISR_TIMER2_COMPA_vect :: "'pid mcu \<Rightarrow> 'pid mcu" where
  "ISR_TIMER2_COMPA_vect s =
     (let s1 = (if g_flag_command_running s \<noteq> 0
                then s\<lparr>g_command_timer_pids := g_command_timer_pids s + 1\<rparr>
                else s)
      in s1\<lparr>g_flag_pid := 1\<rparr>)"

text \<open>
  The receive handler; \<open>ucsr0a\<close> and \<open>udr0\<close> are the two registers it reads. In the
  \<open>else\<close> branch the byte is read into a local and dropped.
\<close>

definition ISR_USART_RX_vect :: "8 word \<Rightarrow> 8 word \<Rightarrow> 'pid mcu \<Rightarrow> 'pid mcu" where
  "ISR_USART_RX_vect ucsr0a udr0 s =
     (if IS_BIT_SET ucsr0a RXC0 \<and> \<not> (g_flag_command_running s \<noteq> 0)
      then s\<lparr>g_command_buffer := udr0, g_flag_command_received := 1\<rparr>
      else s)"

subsection \<open>Executions\<close>

fun step :: "'pid platform \<Rightarrow> 'pid mcu \<Rightarrow> event \<Rightarrow> 'pid mcu" where
  "step pf s MainStep = main_step pf s"
| "step pf s (INT0_vect tcnt1) = ISR_INT0_vect tcnt1 s"
| "step pf s (INT1_vect tcnt1) = ISR_INT1_vect tcnt1 s"
| "step pf s TIMER1_OVF_vect = ISR_TIMER1_OVF_vect s"
| "step pf s TIMER2_COMPA_vect = ISR_TIMER2_COMPA_vect s"
| "step pf s (USART_RX_vect ucsr0a udr0) = ISR_USART_RX_vect ucsr0a udr0 s"

fun run :: "'pid platform \<Rightarrow> 'pid mcu \<Rightarrow> event list \<Rightarrow> 'pid mcu" where
  "run pf s [] = s"
| "run pf s (e # es) = run pf (step pf s e) es"

text \<open>
  The state in which \<open>main\<close> enters its loop: the globals are static and start at zero,
  \<open>main\<close> writes 0 to both \<open>current_rps\<close>. The controllers are set by \<open>PID_Init\<close> and
  the registers by the setup functions and the hardware; they are left open. An
  interrupt served between \<open>sei()\<close> and the loop touches none of the fields that the
  setup writes afterwards, so it is an event of the run.
\<close>

definition boot :: "'pid mcu \<Rightarrow> bool" where
  "boot s \<longleftrightarrow>
     pulse_tick_counter_high_nibble s = 0
     \<and> hall_encoder (g_motor_1 s) =
         \<lparr>timer_value = 0, buffered_timer_value = 0, current_rps = 0,
          is_measurement_ready = 0\<rparr>
     \<and> hall_encoder (g_motor_2 s) =
         \<lparr>timer_value = 0, buffered_timer_value = 0, current_rps = 0,
          is_measurement_ready = 0\<rparr>
     \<and> setpoint (g_motor_1 s) = 0
     \<and> setpoint (g_motor_2 s) = 0
     \<and> g_flag_pid s = 0
     \<and> g_command_timer_pids s = 0
     \<and> g_flag_command_received s = 0
     \<and> g_command_buffer s = 0
     \<and> g_flag_command_running s = 0
     \<and> pc s = L_rps1"

text \<open>The number of sample interrupts (\<open>TIMER2_COMPA_vect\<close>) among some events.\<close>

definition sample_ticks :: "event list \<Rightarrow> nat" where
  "sample_ticks es = length (filter (\<lambda>e. e = TIMER2_COMPA_vect) es)"

text \<open>Events that are all interrupts: \<open>main\<close> does not advance.\<close>

definition interrupts_only :: "event list \<Rightarrow> bool" where
  "interrupts_only es = list_all (\<lambda>e. e \<noteq> MainStep) es"

text \<open>No command is running in any state of the run of \<open>es\<close> from \<open>s\<close>.\<close>

fun idle_during :: "'pid platform \<Rightarrow> 'pid mcu \<Rightarrow> event list \<Rightarrow> bool" where
  "idle_during pf s [] = (g_flag_command_running s = 0)"
| "idle_during pf s (e # es) =
     (g_flag_command_running s = 0 \<and> idle_during pf (step pf s e) es)"

subsection \<open>The wording of the specification\<close>

text \<open>
  The compare value as the specification words it:
  \<open>round(max_compare * (100 - duty) / 100)\<close> with \<open>max_compare = 255\<close>.
\<close>

definition compare_rounded :: "nat \<Rightarrow> int" where
  "compare_rounded duty = round (255 * (100 - real duty) / 100)"

text \<open>
  The tick interval across one wrap as the specification words it:
  \<open>raw + (2^32 - buffered)\<close>.
\<close>

definition wrapped_interval :: "hall_encoder_t \<Rightarrow> nat" where
  "wrapped_interval e = unat (timer_value e) + (2 ^ 32 - unat (buffered_timer_value e))"

subsection \<open>A controller to run the model on\<close>

text \<open>
  Modelled from the spec: pid.h is not part of main.c. The specification gives the
  contract of the PI collaborator (gains and output bounds fixed at initialisation;
  advancing by one sample gives an output within the bounds; clearing resets the
  accumulated history and keeps the gains). \<open>pi_advance\<close> and \<open>pi_clear\<close> are one
  controller of that contract, and \<open>pi_platform\<close> joins it with exact arithmetic (no
  rounding). The theorems below hold for every platform; this one serves to evaluate
  runs on concrete states.
\<close>

record pi_t =
  pi_kp :: float
  pi_ti :: float
  pi_out_min :: float
  pi_out_max :: float
  pi_integral :: float

definition pi_advance :: "pi_t \<Rightarrow> float \<Rightarrow> float \<Rightarrow> float \<times> pi_t" where
  "pi_advance p dt err =
     (let i = pi_integral p + err * dt;
          u = pi_kp p * (err + i / pi_ti p)
      in (max (pi_out_min p) (min (pi_out_max p) u), p\<lparr>pi_integral := i\<rparr>))"

definition pi_clear :: "pi_t \<Rightarrow> pi_t" where
  "pi_clear p = p\<lparr>pi_integral := 0\<rparr>"

definition pi_platform :: "pi_t platform" where
  "pi_platform =
     \<lparr>PID_Advance = pi_advance, PID_ClearAccumulatedValues = pi_clear,
      float_of = (\<lambda>x. x)\<rparr>"

text \<open>The gains and bounds that \<open>setup_PID\<close> passes to \<open>PID_Init\<close>.\<close>

definition pi_init :: pi_t where
  "pi_init = \<lparr>pi_kp = 4.0, pi_ti = 128.8773, pi_out_min = 0, pi_out_max = 95,
              pi_integral = 0\<rparr>"

definition zero_encoder :: hall_encoder_t where
  "zero_encoder = \<lparr>timer_value = 0, buffered_timer_value = 0, current_rps = 0,
                   is_measurement_ready = 0\<rparr>"

text \<open>
  A state at the entry of the loop: the pull-ups of PD2 and PD3 are on
  (\<open>enable_encoder_interrupt\<close>), the other register bits are 0.
\<close>

definition boot_state :: "pi_t mcu" where
  "boot_state =
     \<lparr>pulse_tick_counter_high_nibble = 0,
      g_motor_1 = \<lparr>hall_encoder = zero_encoder, pid = pi_init, setpoint = 0\<rparr>,
      g_motor_2 = \<lparr>hall_encoder = zero_encoder, pid = pi_init, setpoint = 0\<rparr>,
      g_flag_pid = 0,
      g_command_timer_pids = 0,
      g_flag_command_received = 0,
      g_command_buffer = 0,
      g_flag_command_running = 0,
      PORTB = 0,
      PORTD = 0x0C,
      OCR0A = 0,
      OCR0B = 0,
      TCNT0 = 0,
      pc = L_rps1\<rparr>"

subsection \<open>Invariants of the command state machine\<close>

text \<open>
  While no command runs, the duration counter is 0, except between the two assignments
  that end a command (\<open>g_flag_command_running = 0; g_command_timer_pids = 0;\<close>).
\<close>

definition idle_timer_zero :: "'pid mcu \<Rightarrow> bool" where
  "idle_timer_zero s \<longleftrightarrow>
     (g_flag_command_running s = 0 \<and> pc s \<noteq> L_done_tmr \<longrightarrow> g_command_timer_pids s = 0)"


text \<open>
  While a command runs, both setpoints are \<open>motor_on_rps\<close>, except between
  \<open>do_on_command_complete\<close> and the assignment that clears the running flag.
\<close>

definition on_speed :: "'pid mcu \<Rightarrow> bool" where
  "on_speed s \<longleftrightarrow>
     (g_flag_command_running s \<noteq> 0 \<and> pc s \<noteq> L_done_run \<longrightarrow>
        setpoint (g_motor_1 s) = motor_on_rps \<and> setpoint (g_motor_2 s) = motor_on_rps)"

subsection \<open>Concrete runs\<close>

text \<open>
  The life of one forward command, from \<open>boot_state\<close>. The receiver delivers \<open>'w'\<close>
  (0x77, with \<open>RXC0\<close> set in \<open>UCSR0A\<close>) and \<open>main\<close> reaches the \<open>if\<close> that parses it:
\<close>

definition pending_w_state :: "pi_t mcu" where
  "pending_w_state =
     run pi_platform boot_state [USART_RX_vect 0x80 0x77, MainStep, MainStep, MainStep]"

text \<open>\<open>main\<close> parses the command, clears the flag and finishes the iteration:\<close>

definition running_w_state :: "pi_t mcu" where
  "running_w_state = run pi_platform pending_w_state [MainStep, MainStep, MainStep]"

text \<open>
  376 sample interrupts later \<open>main\<close> runs the control step once and stands before the
  completion check:
\<close>

definition completing_w_state :: "pi_t mcu" where
  "completing_w_state =
     run pi_platform running_w_state
       (replicate (Suc 375) TIMER2_COMPA_vect
        @ [MainStep, MainStep, MainStep, MainStep, MainStep])"

text \<open>The completion branch, with a sample interrupt and a received byte in between:\<close>

definition completed_w_state :: "pi_t mcu" where
  "completed_w_state =
     run pi_platform completing_w_state
       (MainStep # [TIMER2_COMPA_vect] @ MainStep # [USART_RX_vect 0x80 0x73] @ [MainStep])"

text \<open>
  Two latched snapshots on either side of a wrap of the 32-bit tick count: an edge at
  tick 0xFFFF8000, and the next one 65536 ticks later, after the overflow counter has
  wrapped from 0xFFFF to 0.
\<close>

definition before_wrap_encoder :: hall_encoder_t where
  "before_wrap_encoder =
     \<lparr>timer_value = 0xFFFF8000, buffered_timer_value = 0xFFFF0000, current_rps = 1,
      is_measurement_ready = 0\<rparr>"

definition wrap_encoder :: hall_encoder_t where
  "wrap_encoder =
     \<lparr>timer_value = 0x00008000, buffered_timer_value = 0xFFFF8000, current_rps = 1,
      is_measurement_ready = 1\<rparr>"

text \<open>Two pairs of snapshots without a wrap: 10000 ticks apart and 1000 ticks apart.\<close>

definition slow_encoder :: hall_encoder_t where
  "slow_encoder =
     \<lparr>timer_value = 20000, buffered_timer_value = 10000, current_rps = 1,
      is_measurement_ready = 1\<rparr>"

definition fast_encoder :: hall_encoder_t where
  "fast_encoder =
     \<lparr>timer_value = 11000, buffered_timer_value = 10000, current_rps = 1,
      is_measurement_ready = 1\<rparr>"

text \<open>
  An idle state in which a sample interrupt has set \<open>g_flag_pid\<close> and \<open>main\<close> stands
  before the control step:
\<close>

definition idle_tick_state :: "pi_t mcu" where
  "idle_tick_state = run pi_platform boot_state [TIMER2_COMPA_vect, MainStep, MainStep]"

text \<open>The events of the whole life of the forward command.\<close>

definition forward_command_events :: "event list" where
  "forward_command_events =
     [USART_RX_vect 0x80 0x77, MainStep, MainStep, MainStep]
     @ [MainStep, MainStep, MainStep]
     @ (replicate (Suc 375) TIMER2_COMPA_vect
        @ [MainStep, MainStep, MainStep, MainStep, MainStep])
     @ (MainStep # [TIMER2_COMPA_vect] @ MainStep # [USART_RX_vect 0x80 0x73] @ [MainStep])"

text \<open>
  The state after \<open>do_parse_command\<close> has parsed the byte \<open>b\<close> in \<open>t\<close> with no command
  running.
\<close>

definition parsed :: "'pid mcu \<Rightarrow> 8 word \<Rightarrow> 'pid mcu" where
  "parsed t b = do_parse_command (t\<lparr>g_command_buffer := b, g_flag_command_running := 0\<rparr>)"

subsection \<open>Interrupts inside a statement of main\<close>





text \<open>
  The second is \<open>do_parse_command\<close>: it stores the masked byte into the volatile
  \<open>g_command_buffer\<close> and the \<open>switch\<close> loads the buffer again, while the running flag is
  still 0 and the receive handler may store a byte. \<open>parse_mask\<close> is the function up to
  the store, \<open>parse_switch\<close> the rest, and \<open>es\<close> are the interrupts served between the two.
\<close>

definition parse_mask :: "'pid mcu \<Rightarrow> 'pid mcu" where
  "parse_mask s =
     (let s1 = s\<lparr>g_motor_1 := (g_motor_1 s)\<lparr>setpoint := motor_on_rps\<rparr>,
                 g_motor_2 := (g_motor_2 s)\<lparr>setpoint := motor_on_rps\<rparr>\<rparr>
      in s1\<lparr>g_command_buffer := mask_command_buffer (g_command_buffer s1)\<rparr>)"

definition parse_switch :: "'pid mcu \<Rightarrow> 'pid mcu" where
  "parse_switch s =
     (let command = switch_command (g_command_buffer s);
          s3 = set_motor_direction command s
      in s3\<lparr>g_flag_command_running := 1\<rparr>)"

definition do_parse_command_interrupted ::
  "'pid platform \<Rightarrow> 'pid mcu \<Rightarrow> event list \<Rightarrow> 'pid mcu" where
  "do_parse_command_interrupted pf s es =
     (if g_flag_command_running s \<noteq> 0 then s
      else parse_switch (run pf (parse_mask s) es))"



text \<open>
  The stop command \<open>'x'\<close> (0x78): received, parsed, and after the next sample interrupt
  \<open>main\<close> stands before the control step.
\<close>

definition stop_control_events :: "event list" where
  "stop_control_events =
     [USART_RX_vect 0x80 0x78, MainStep, MainStep, MainStep, MainStep, MainStep, MainStep,
      TIMER2_COMPA_vect, MainStep, MainStep]"

definition stop_control_state :: "pi_t mcu" where
  "stop_control_state = run pi_platform boot_state stop_control_events"


section \<open>Properties\<close>

subsection \<open>What the called functions leave alone\<close>

lemma set_motor_direction_fields [simp]:
  "g_flag_command_running (set_motor_direction c s) = g_flag_command_running s"
  "g_command_timer_pids (set_motor_direction c s) = g_command_timer_pids s"
  "g_flag_command_received (set_motor_direction c s) = g_flag_command_received s"
  "g_command_buffer (set_motor_direction c s) = g_command_buffer s"
  "g_flag_pid (set_motor_direction c s) = g_flag_pid s"
  "g_motor_1 (set_motor_direction c s) = g_motor_1 s"
  "g_motor_2 (set_motor_direction c s) = g_motor_2 s"
  "OCR0A (set_motor_direction c s) = OCR0A s"
  "OCR0B (set_motor_direction c s) = OCR0B s"
  "TCNT0 (set_motor_direction c s) = TCNT0 s"
  "pc (set_motor_direction c s) = pc s"
  by (cases c; simp add: set_motor_direction_def)+

lemma set_motor_direction_ports:
  "(set_motor_direction c s)\<lparr>PORTB := p, PORTD := q\<rparr> = s\<lparr>PORTB := p, PORTD := q\<rparr>"
  by (cases c) (simp_all add: set_motor_direction_def)

lemma do_advance_pids_fields [simp]:
  "g_flag_command_running (do_advance_pids pf s) = g_flag_command_running s"
  "g_command_timer_pids (do_advance_pids pf s) = g_command_timer_pids s"
  "g_flag_command_received (do_advance_pids pf s) = g_flag_command_received s"
  "g_command_buffer (do_advance_pids pf s) = g_command_buffer s"
  "setpoint (g_motor_1 (do_advance_pids pf s)) = setpoint (g_motor_1 s)"
  "setpoint (g_motor_2 (do_advance_pids pf s)) = setpoint (g_motor_2 s)"
  "pc (do_advance_pids pf s) = pc s"
  by (simp_all add: do_advance_pids_def Let_def split_def)

text \<open>With a handle that is not \<open>NULL\<close>, \<open>do_update_rps\<close> returns.\<close>

lemma do_update_rps_Some: "\<exists>e'. do_update_rps fl (Some e) = Some e'"
  by (simp add: do_update_rps_def Let_def)

lemmas isr_defs =
  ISR_INT0_vect_def ISR_INT1_vect_def ISR_TIMER1_OVF_vect_def ISR_TIMER2_COMPA_vect_def
  ISR_USART_RX_vect_def hall_encoder_do_save_timer_value_def

lemmas loop_defs =
  main_step_def do_parse_command_def do_on_command_complete_def Let_def

lemma run_append: "run pf s (es @ fs) = run pf (run pf s es) fs"
  by (induction es arbitrary: s) simp_all

lemma sample_ticks_simps [simp]:
  "sample_ticks [] = 0"
  "sample_ticks (e # es) = (if e = TIMER2_COMPA_vect then 1 else 0) + sample_ticks es"
  by (simp_all add: sample_ticks_def)


text \<open>An interrupt handler writes neither the control outputs nor the running flag.\<close>

lemma interrupt_step_fields:
  assumes "e \<noteq> MainStep"
  shows "pc (step pf s e) = pc s
       \<and> g_flag_command_running (step pf s e) = g_flag_command_running s
       \<and> setpoint (g_motor_1 (step pf s e)) = setpoint (g_motor_1 s)
       \<and> setpoint (g_motor_2 (step pf s e)) = setpoint (g_motor_2 s)
       \<and> pid (g_motor_1 (step pf s e)) = pid (g_motor_1 s)
       \<and> pid (g_motor_2 (step pf s e)) = pid (g_motor_2 s)
       \<and> OCR0A (step pf s e) = OCR0A s
       \<and> OCR0B (step pf s e) = OCR0B s"
  using assms by (cases e) (simp_all add: isr_defs Let_def)

lemma interrupt_run_fields:
  "interrupts_only es \<Longrightarrow>
     pc (run pf s es) = pc s
   \<and> g_flag_command_running (run pf s es) = g_flag_command_running s
   \<and> setpoint (g_motor_1 (run pf s es)) = setpoint (g_motor_1 s)
   \<and> setpoint (g_motor_2 (run pf s es)) = setpoint (g_motor_2 s)
   \<and> pid (g_motor_1 (run pf s es)) = pid (g_motor_1 s)
   \<and> pid (g_motor_2 (run pf s es)) = pid (g_motor_2 s)
   \<and> OCR0A (run pf s es) = OCR0A s
   \<and> OCR0B (run pf s es) = OCR0B s"
proof (induction es arbitrary: s)
  case Nil
  then show ?case by simp
next
  case (Cons e es)
  have e: "e \<noteq> MainStep" and es: "interrupts_only es"
    using Cons.prems by (simp_all add: interrupts_only_def)
  show ?case
    using Cons.IH [OF es, of "step pf s e"] interrupt_step_fields [OF e, of pf s]
    by simp
qed

subsection \<open>The invariants are kept by every step\<close>

lemma idle_timer_zero_step:
  assumes "idle_timer_zero s"
  shows "idle_timer_zero (step pf s e)"
proof (cases e)
  case MainStep
  obtain e1 where e1: "do_update_rps (float_of pf) (Some (hall_encoder (g_motor_1 s))) = Some e1"
    using do_update_rps_Some by blast
  obtain e2 where e2: "do_update_rps (float_of pf) (Some (hall_encoder (g_motor_2 s))) = Some e2"
    using do_update_rps_Some by blast
  show ?thesis
    using assms MainStep e1 e2
    by (cases "pc s") (auto simp: idle_timer_zero_def loop_defs)
next
  case (INT0_vect x)
  then show ?thesis using assms by (simp add: idle_timer_zero_def isr_defs)
next
  case (INT1_vect x)
  then show ?thesis using assms by (simp add: idle_timer_zero_def isr_defs)
next
  case TIMER1_OVF_vect
  then show ?thesis using assms by (simp add: idle_timer_zero_def isr_defs)
next
  case TIMER2_COMPA_vect
  then show ?thesis using assms by (simp add: idle_timer_zero_def isr_defs Let_def)
next
  case (USART_RX_vect x y)
  then show ?thesis using assms by (simp add: idle_timer_zero_def isr_defs)
qed

lemma idle_timer_zero_run:
  "idle_timer_zero s \<Longrightarrow> idle_timer_zero (run pf s es)"
  by (induction es arbitrary: s) (simp_all add: idle_timer_zero_step)

lemma boot_idle_timer_zero: "boot s \<Longrightarrow> idle_timer_zero s"
  by (simp add: boot_def idle_timer_zero_def)



lemma on_speed_step:
  assumes "on_speed s"
  shows "on_speed (step pf s e)"
proof (cases e)
  case MainStep
  obtain e1 where e1: "do_update_rps (float_of pf) (Some (hall_encoder (g_motor_1 s))) = Some e1"
    using do_update_rps_Some by blast
  obtain e2 where e2: "do_update_rps (float_of pf) (Some (hall_encoder (g_motor_2 s))) = Some e2"
    using do_update_rps_Some by blast
  show ?thesis
    using assms MainStep e1 e2
    by (cases "pc s") (auto simp: on_speed_def loop_defs)
next
  case (INT0_vect x)
  then show ?thesis using assms by (simp add: on_speed_def isr_defs)
next
  case (INT1_vect x)
  then show ?thesis using assms by (simp add: on_speed_def isr_defs)
next
  case TIMER1_OVF_vect
  then show ?thesis using assms by (simp add: on_speed_def isr_defs)
next
  case TIMER2_COMPA_vect
  then show ?thesis using assms by (simp add: on_speed_def isr_defs Let_def)
next
  case (USART_RX_vect x y)
  then show ?thesis using assms by (simp add: on_speed_def isr_defs)
qed

lemma on_speed_run: "on_speed s \<Longrightarrow> on_speed (run pf s es)"
  by (induction es arbitrary: s) (simp_all add: on_speed_step)

text \<open>
  The handles that \<open>main\<close> and the interrupt handlers pass are addresses of globals, so
  the \<open>NULL\<close> branches are never taken: no run from the entry of the loop ends in
  \<open>do_handle_fatal_error\<close>.
\<close>

lemma not_fatal_step:
  assumes "pc s \<noteq> L_fatal"
  shows "pc (step pf s e) \<noteq> L_fatal"
proof (cases e)
  case MainStep
  obtain e1 where e1: "do_update_rps (float_of pf) (Some (hall_encoder (g_motor_1 s))) = Some e1"
    using do_update_rps_Some by blast
  obtain e2 where e2: "do_update_rps (float_of pf) (Some (hall_encoder (g_motor_2 s))) = Some e2"
    using do_update_rps_Some by blast
  show ?thesis
    using assms MainStep e1 e2
    by (cases "pc s") (auto simp: loop_defs)
qed (use assms in \<open>simp_all add: isr_defs Let_def\<close>)

lemma not_fatal_run: "boot s \<Longrightarrow> pc (run pf s es) \<noteq> L_fatal"
proof -
  have "pc s \<noteq> L_fatal \<Longrightarrow> pc (run pf s es) \<noteq> L_fatal"
    by (induction es arbitrary: s) (simp_all add: not_fatal_step)
  then show "boot s \<Longrightarrow> pc (run pf s es) \<noteq> L_fatal"
    by (simp add: boot_def)
qed

text \<open>While no command runs, no step writes a compare register or a controller.\<close>

lemma idle_step_outputs:
  assumes "g_flag_command_running s = 0"
  shows "OCR0A (step pf s e) = OCR0A s \<and> OCR0B (step pf s e) = OCR0B s
       \<and> TCNT0 (step pf s e) = TCNT0 s
       \<and> pid (g_motor_1 (step pf s e)) = pid (g_motor_1 s)
       \<and> pid (g_motor_2 (step pf s e)) = pid (g_motor_2 s)"
proof (cases e)
  case MainStep
  obtain e1 where e1: "do_update_rps (float_of pf) (Some (hall_encoder (g_motor_1 s))) = Some e1"
    using do_update_rps_Some by blast
  obtain e2 where e2: "do_update_rps (float_of pf) (Some (hall_encoder (g_motor_2 s))) = Some e2"
    using do_update_rps_Some by blast
  show ?thesis
    using assms MainStep e1 e2
    by (cases "pc s") (simp_all add: loop_defs)
qed (simp_all add: isr_defs Let_def)

lemma idle_run_outputs:
  "idle_during pf s es \<Longrightarrow>
     OCR0A (run pf s es) = OCR0A s \<and> OCR0B (run pf s es) = OCR0B s
   \<and> TCNT0 (run pf s es) = TCNT0 s
   \<and> pid (g_motor_1 (run pf s es)) = pid (g_motor_1 s)
   \<and> pid (g_motor_2 (run pf s es)) = pid (g_motor_2 s)"
proof (induction es arbitrary: s)
  case Nil
  then show ?case by simp
next
  case (Cons e es)
  have i: "g_flag_command_running s = 0" and r: "idle_during pf (step pf s e) es"
    using Cons.prems by simp_all
  show ?case
    using Cons.IH [OF r] idle_step_outputs [OF i, of pf e] by simp
qed

subsection \<open>Evaluating the concrete runs\<close>

lemmas eval_defs =
  boot_state_def zero_encoder_def pi_init_def pi_platform_def pi_advance_def pi_clear_def
  loop_defs isr_defs do_update_rps_def do_advance_pids_def set_motor_direction_def
  switch_command_def mask_command_buffer_def IS_BIT_SET_def SET_BIT_def CLR_BIT_def
  RXC0_def PORTB0_def PORTB1_def PORTB2_def PORTD7_def motor_on_rps_def
  calculate_oc_value_from_dc_def float_to_uint32_def SAMPLE_TIME_S_def
  SAMPLING_FREQUENCY_def command_duration_pids_def

lemma boot_boot_state: "boot boot_state"
  by (simp add: boot_def boot_state_def zero_encoder_def)

lemma pending_w_state_eq:
  "pending_w_state =
     boot_state\<lparr>g_command_buffer := 0x77, g_flag_command_received := 1, pc := L_cmd\<rparr>"
  by (simp add: pending_w_state_def eval_defs)

lemma running_w_state_eq:
  "running_w_state =
     boot_state\<lparr>g_motor_1 := \<lparr>hall_encoder = zero_encoder, pid = pi_init, setpoint = 1\<rparr>,
       g_motor_2 := \<lparr>hall_encoder = zero_encoder, pid = pi_init, setpoint = 1\<rparr>,
       g_command_buffer := 0x77, g_flag_command_running := 1, PORTB := 4, PORTD := 0x8C\<rparr>"
  by (simp add: running_w_state_def pending_w_state_eq eval_defs)

lemma run_sample_ticks:
  "g_flag_command_running s \<noteq> 0 \<Longrightarrow>
   run pf s (replicate (Suc n) TIMER2_COMPA_vect) =
     s\<lparr>g_command_timer_pids := g_command_timer_pids s + of_nat (Suc n), g_flag_pid := 1\<rparr>"
proof (induction n arbitrary: s)
  case 0
  then show ?case by (simp add: isr_defs Let_def)
next
  case (Suc n)
  have r: "g_flag_command_running (step pf s TIMER2_COMPA_vect) \<noteq> 0"
    using Suc.prems by (simp add: isr_defs Let_def)
  have "run pf s (replicate (Suc (Suc n)) TIMER2_COMPA_vect)
        = run pf (step pf s TIMER2_COMPA_vect) (replicate (Suc n) TIMER2_COMPA_vect)"
    by simp
  also have "\<dots> = (step pf s TIMER2_COMPA_vect)\<lparr>g_command_timer_pids :=
       g_command_timer_pids (step pf s TIMER2_COMPA_vect) + of_nat (Suc n), g_flag_pid := 1\<rparr>"
    by (rule Suc.IH [OF r])
  finally show ?case using Suc.prems by (simp add: isr_defs Let_def add.assoc)
qed


subsection \<open>Interrupts inside the completion check and inside the parse\<close>



lemma do_parse_command_uninterrupted:
  "do_parse_command_interrupted pf s [] = do_parse_command s"
  by (simp add: do_parse_command_interrupted_def do_parse_command_def parse_mask_def
      parse_switch_def Let_def)








lemma stop_control_state_eq:
  "stop_control_state =
     boot_state\<lparr>g_motor_1 := \<lparr>hall_encoder = zero_encoder, pid = pi_init, setpoint = 1\<rparr>,
       g_motor_2 := \<lparr>hall_encoder = zero_encoder, pid = pi_init, setpoint = 1\<rparr>,
       g_command_buffer := 0x78, g_flag_command_running := 1, g_flag_pid := 1,
       g_command_timer_pids := 1, pc := L_pid\<rparr>"
  by (simp add: stop_control_state_def stop_control_events_def eval_defs)


lemma completing_w_state_eq:
  "completing_w_state =
     running_w_state\<lparr>g_command_timer_pids := 376,
       g_motor_1 := \<lparr>hall_encoder = zero_encoder, pid = pi_init\<lparr>pi_integral := 2 / 125\<rparr>,
                    setpoint = 1\<rparr>,
       g_motor_2 := \<lparr>hall_encoder = zero_encoder, pid = pi_init\<lparr>pi_integral := 2 / 125\<rparr>,
                    setpoint = 1\<rparr>,
       OCR0A := 244, OCR0B := 244, pc := L_done\<rparr>"
proof -
  have r: "g_flag_command_running running_w_state \<noteq> 0"
    by (simp add: running_w_state_eq boot_state_def)
  show ?thesis
    unfolding completing_w_state_def run_append run_sample_ticks [OF r]
    by (simp add: running_w_state_eq eval_defs)
qed

lemma completed_w_state_eq:
  "completed_w_state =
     completing_w_state\<lparr>g_command_timer_pids := 0, g_flag_command_running := 0,
       g_flag_pid := 1, g_command_buffer := 0x73, g_flag_command_received := 1,
       g_motor_1 := \<lparr>hall_encoder = zero_encoder, pid = pi_init, setpoint = 0\<rparr>,
       g_motor_2 := \<lparr>hall_encoder = zero_encoder, pid = pi_init, setpoint = 0\<rparr>,
       OCR0A := 0xFF, OCR0B := 0xFF, pc := L_rps1\<rparr>"
  by (simp add: completed_w_state_def completing_w_state_eq running_w_state_eq eval_defs)

lemma idle_tick_state_eq:
  "idle_tick_state = boot_state\<lparr>g_flag_pid := 1, pc := L_pid\<rparr>"
  by (simp add: idle_tick_state_def eval_defs)

subsection \<open>Command completion\<close>

text \<open>
  Claim C1. A command is running, \<open>main\<close> stands before the completion check and the
  duration counter has reached \<open>command_duration_pids\<close> (376). Then the three steps of
  the completion branch, with any interrupts served between them, leave the state machine
  idle at the top of the loop with the counter at 0; both setpoints are 0, \<open>OCR0A\<close> and
  \<open>OCR0B\<close> are 0xFF, and each controller is the result of
  \<open>PID_ClearAccumulatedValues\<close> on the controller the command ended with.
\<close>

theorem command_complete_returns_to_idle:
  assumes "pc s = L_done" and "g_flag_command_running s \<noteq> 0"
    and "g_command_timer_pids s \<ge> command_duration_pids"
    and "interrupts_only es1" and "interrupts_only es2"
  shows "unat command_duration_pids = 376
       \<and> (let s' = run pf s (MainStep # es1 @ MainStep # es2 @ [MainStep]) in
           g_flag_command_running s' = 0
         \<and> g_command_timer_pids s' = 0
         \<and> pc s' = L_rps1
         \<and> setpoint (g_motor_1 s') = 0
         \<and> setpoint (g_motor_2 s') = 0
         \<and> OCR0A s' = 0xFF
         \<and> OCR0B s' = 0xFF
         \<and> pid (g_motor_1 s') = PID_ClearAccumulatedValues pf (pid (g_motor_1 s))
         \<and> pid (g_motor_2 s') = PID_ClearAccumulatedValues pf (pid (g_motor_2 s)))"
proof -
  define a where "a = step pf s MainStep"
  define b where "b = run pf a es1"
  define c where "c = step pf b MainStep"
  define d where "d = run pf c es2"
  define f where "f = step pf d MainStep"
  have a: "pc a = L_done_run" "g_flag_command_running a \<noteq> 0"
    "setpoint (g_motor_1 a) = 0" "setpoint (g_motor_2 a) = 0"
    "OCR0A a = 0xFF" "OCR0B a = 0xFF"
    "pid (g_motor_1 a) = PID_ClearAccumulatedValues pf (pid (g_motor_1 s))"
    "pid (g_motor_2 a) = PID_ClearAccumulatedValues pf (pid (g_motor_2 s))"
    using assms(1-3) by (simp_all add: a_def loop_defs)
  have b: "pc b = L_done_run"
    "setpoint (g_motor_1 b) = 0" "setpoint (g_motor_2 b) = 0"
    "OCR0A b = 0xFF" "OCR0B b = 0xFF"
    "pid (g_motor_1 b) = PID_ClearAccumulatedValues pf (pid (g_motor_1 s))"
    "pid (g_motor_2 b) = PID_ClearAccumulatedValues pf (pid (g_motor_2 s))"
    using a interrupt_run_fields [OF assms(4), of pf a] by (simp_all add: b_def)
  have c: "pc c = L_done_tmr" "g_flag_command_running c = 0"
    "setpoint (g_motor_1 c) = 0" "setpoint (g_motor_2 c) = 0"
    "OCR0A c = 0xFF" "OCR0B c = 0xFF"
    "pid (g_motor_1 c) = PID_ClearAccumulatedValues pf (pid (g_motor_1 s))"
    "pid (g_motor_2 c) = PID_ClearAccumulatedValues pf (pid (g_motor_2 s))"
    using b by (simp_all add: c_def loop_defs)
  have d: "pc d = L_done_tmr" "g_flag_command_running d = 0"
    "setpoint (g_motor_1 d) = 0" "setpoint (g_motor_2 d) = 0"
    "OCR0A d = 0xFF" "OCR0B d = 0xFF"
    "pid (g_motor_1 d) = PID_ClearAccumulatedValues pf (pid (g_motor_1 s))"
    "pid (g_motor_2 d) = PID_ClearAccumulatedValues pf (pid (g_motor_2 s))"
    using c interrupt_run_fields [OF assms(5), of pf c] by (simp_all add: d_def)
  have f: "pc f = L_rps1" "g_flag_command_running f = 0" "g_command_timer_pids f = 0"
    "setpoint (g_motor_1 f) = 0" "setpoint (g_motor_2 f) = 0"
    "OCR0A f = 0xFF" "OCR0B f = 0xFF"
    "pid (g_motor_1 f) = PID_ClearAccumulatedValues pf (pid (g_motor_1 s))"
    "pid (g_motor_2 f) = PID_ClearAccumulatedValues pf (pid (g_motor_2 s))"
    using d by (simp_all add: f_def loop_defs)
  have "run pf s (MainStep # es1 @ MainStep # es2 @ [MainStep]) = f"
    unfolding f_def d_def c_def b_def a_def
    by (simp only: run.simps run_append append_Cons append_Nil)
  then show ?thesis using f by (simp add: Let_def command_duration_pids_def)
qed

text \<open>
  The forward command of the concrete run, at its 376th sample: a further sample
  interrupt and a received byte arrive inside the completion branch.
\<close>

theorem command_complete_returns_to_idle_witness:
  "pc completing_w_state = L_done
   \<and> g_flag_command_running completing_w_state \<noteq> 0
   \<and> g_command_timer_pids completing_w_state \<ge> command_duration_pids
   \<and> interrupts_only [TIMER2_COMPA_vect]
   \<and> interrupts_only [USART_RX_vect 0x80 0x73]
   \<and> g_flag_command_running completed_w_state = 0
   \<and> g_command_timer_pids completed_w_state = 0
   \<and> pc completed_w_state = L_rps1
   \<and> setpoint (g_motor_1 completed_w_state) = 0
   \<and> setpoint (g_motor_2 completed_w_state) = 0
   \<and> OCR0A completed_w_state = 0xFF
   \<and> OCR0B completed_w_state = 0xFF
   \<and> pid (g_motor_1 completed_w_state) = pi_clear (pid (g_motor_1 completing_w_state))
   \<and> pid (g_motor_2 completed_w_state) = pi_clear (pid (g_motor_2 completing_w_state))"
proof -
  have h1: "pc completing_w_state = L_done"
    and h2: "g_flag_command_running completing_w_state \<noteq> 0"
    and h3: "g_command_timer_pids completing_w_state \<ge> command_duration_pids"
    by (simp_all add: completing_w_state_eq running_w_state_eq boot_state_def
        command_duration_pids_def)
  have h4: "interrupts_only [TIMER2_COMPA_vect]"
    and h5: "interrupts_only [USART_RX_vect 0x80 0x73]"
    by (simp_all add: interrupts_only_def)
  show ?thesis
    using command_complete_returns_to_idle [OF h1 h2 h3 h4 h5, of pi_platform] h1 h2 h3 h4 h5
    unfolding Let_def completed_w_state_def [symmetric]
    by (simp add: pi_platform_def)
qed

subsection \<open>The tick interval across a wrap\<close>

text \<open>
  Without a wrap the interval is the difference of the two snapshots. Across a wrap
  the source adds \<open>UINT32_MAX - buffered_timer_value\<close>, which is one less than the
  distance \<open>2^32 - buffered_timer_value\<close> to the wrap.
\<close>

lemma tick_interval_no_wrap:
  "\<not> buffered_timer_value e > timer_value e \<Longrightarrow>
   unat (tick_interval e) = unat (timer_value e) - unat (buffered_timer_value e)"
  by (auto simp: tick_interval_def unat_sub not_less)

lemma tick_interval_one_wrap:
  assumes "buffered_timer_value e > timer_value e"
  shows "unat (tick_interval e) + 1 = wrapped_interval e"
proof -
  have lt: "unat (timer_value e) < unat (buffered_timer_value e)"
    using assms by (simp add: word_less_nat_alt)
  have b: "unat (buffered_timer_value e) < 2 ^ 32"
    using unsigned_less [of "buffered_timer_value e"] by simp
  have "buffered_timer_value e \<le> UINT32_MAX"
    unfolding UINT32_MAX_def using b by (simp add: word_le_nat_alt)
  then have s: "unat (UINT32_MAX - buffered_timer_value e)
                = 4294967295 - unat (buffered_timer_value e)"
    by (simp add: unat_sub UINT32_MAX_def)
  have "unat (timer_value e) + unat (UINT32_MAX - buffered_timer_value e) < 2 ^ LENGTH(32)"
    using lt b s by simp
  then have "unat (timer_value e + (UINT32_MAX - buffered_timer_value e))
             = unat (timer_value e) + unat (UINT32_MAX - buffered_timer_value e)"
    by (simp only: unat_add_lem)
  then have "unat (tick_interval e)
             = unat (timer_value e) + (4294967295 - unat (buffered_timer_value e))"
    using assms s by (simp add: tick_interval_def)
  then show ?thesis using b lt by (simp add: wrapped_interval_def)
qed

text \<open>
  Claim C2. The claim gives \<open>timer_value + (2^32 - buffered_timer_value)\<close> for two
  snapshots with one wrap between them. The capture handler latches \<open>wrap_encoder\<close> from
  an edge at tick 0xFFFF8000 and an edge 65536 ticks later; the claimed interval is
  65536, and \<open>do_update_rps\<close> uses 65535.
\<close>

theorem tick_interval_wrap_one_short:
  "hall_encoder_do_save_timer_value (Some before_wrap_encoder) 0x8000 0 = Some wrap_encoder
   \<and> timer_value wrap_encoder < buffered_timer_value wrap_encoder
   \<and> wrapped_interval wrap_encoder = 65536
   \<and> unat (tick_interval wrap_encoder) = 65535"
  by (simp add: hall_encoder_do_save_timer_value_def before_wrap_encoder_def
      wrap_encoder_def wrapped_interval_def tick_interval_def UINT32_MAX_def)

subsection \<open>The duration of a command\<close>




subsection \<open>A byte received while a command runs\<close>

text \<open>
  Claim C4 says that a byte arriving while a command runs is accepted into the command
  buffer and executed once the state machine is idle again. In the running state of
  the concrete run the receiver delivers \<open>'s'\<close> (0x73): the buffer still holds \<open>'w'\<close>
  (0x77) and the received flag stays 0.
\<close>

theorem byte_while_running_not_buffered:
  "g_flag_command_running running_w_state \<noteq> 0
   \<and> IS_BIT_SET 0x80 RXC0
   \<and> g_command_buffer (step pi_platform running_w_state (USART_RX_vect 0x80 0x73)) = 0x77
   \<and> g_flag_command_received (step pi_platform running_w_state (USART_RX_vect 0x80 0x73)) = 0"
  by (simp add: running_w_state_eq boot_state_def isr_defs IS_BIT_SET_def RXC0_def)

text \<open>
  Claim C4, amended. While a command runs the receive handler drops the byte: it
  changes no global, so the byte is never acted on, whatever follows.
\<close>

theorem byte_while_running_discarded:
  "g_flag_command_running s \<noteq> 0 \<Longrightarrow>
     step pf s (USART_RX_vect ucsr udr) = s
   \<and> run pf s (USART_RX_vect ucsr udr # es) = run pf s es"
  by (simp add: isr_defs)

theorem byte_while_running_discarded_witness:
  "g_flag_command_running running_w_state \<noteq> 0
   \<and> step pi_platform running_w_state (USART_RX_vect 0x80 0x73) = running_w_state
   \<and> run pi_platform running_w_state [USART_RX_vect 0x80 0x73, MainStep]
     = run pi_platform running_w_state [MainStep]"
proof -
  have h: "g_flag_command_running running_w_state \<noteq> 0"
    by (simp add: running_w_state_eq boot_state_def)
  show ?thesis
    using byte_while_running_discarded [OF h,
        where pf = pi_platform and ucsr = "0x80" and udr = "0x73" and es = "[MainStep]"] h
    by blast
qed

subsection \<open>The RPS estimate\<close>

text \<open>
  The interval is a whole number of ticks, so \<open>F_CPU / (ticks * PULSES_PER_ROTATION)\<close>
  is never exactly the discard limit 10: that would need \<open>49 * ticks = 320000\<close>. It is
  above 10 up to 6530 ticks and below 10 from 6531 ticks on.
\<close>

lemma new_rps_exact:
  assumes "1 \<le> n"
  shows "(n \<le> 6530 \<longrightarrow> 10 < 16000000 / (real n * 245))
       \<and> (6531 \<le> n \<longrightarrow> 16000000 / (real n * 245) < (10::real))"
proof -
  have p: "0 < real n * 245" using assms by simp
  have "10 < 16000000 / (real n * 245)" if "n \<le> 6530"
  proof -
    have "real n \<le> 6530" using that by simp
    then have "10 * (real n * 245) < 16000000" by simp
    then show ?thesis using p by (simp only: less_divide_eq if_P)
  qed
  moreover have "16000000 / (real n * 245) < 10" if "6531 \<le> n"
  proof -
    have "6531 \<le> real n" using that by simp
    then have "16000000 < 10 * (real n * 245)" by simp
    then show ?thesis using p by (simp only: divide_less_eq if_P)
  qed
  ultimately show ?thesis by blast
qed

text \<open>
  A positive value in the normal range is rounded to within the fraction \<open>2^-23\<close> of
  itself.
\<close>

lemma single_precision_pos:
  assumes "single_precision fl" and "1 / 2 ^ 126 \<le> x" and "x \<le> 2 ^ 127"
  shows "x * (1 - 1 / 2 ^ 23) \<le> fl x \<and> fl x \<le> x * (1 + 1 / 2 ^ 23)"
proof -
  have "(0::real) < 1 / 2 ^ 126" by simp
  then have p: "0 < x" using assms(2) by linarith
  have ax: "\<bar>x\<bar> = x" using p by simp
  have "1 / 2 ^ 126 \<le> \<bar>x\<bar> \<and> \<bar>x\<bar> \<le> 2 ^ 127"
    unfolding ax using assms(2,3) by (rule conjI)
  moreover have "\<forall>x. 1 / 2 ^ 126 \<le> \<bar>x\<bar> \<and> \<bar>x\<bar> \<le> 2 ^ 127
                   \<longrightarrow> \<bar>fl x - x\<bar> \<le> \<bar>x\<bar> / 2 ^ 23"
    using assms(1) unfolding single_precision_def by (rule conjunct2)
  ultimately have "\<bar>fl x - x\<bar> \<le> \<bar>x\<bar> / 2 ^ 23" by blast
  then have "\<bar>fl x - x\<bar> \<le> x / 2 ^ 23" unfolding ax .
  then have "x - x / 2 ^ 23 \<le> fl x \<and> fl x \<le> x + x / 2 ^ 23" by linarith
  then show ?thesis by (simp add: algebra_simps)
qed

text \<open>
  The three roundings on the way from the interval to \<open>new_rps\<close> do not move it across
  the discard limit: the exact quotient is at least \<open>6 * 10^-5\<close> away from 10 in relative
  terms, the roundings add up to less than \<open>4 * 10^-7\<close>.
\<close>

lemma new_rps_rounded:
  assumes sp: "single_precision fl" and n1: "1 \<le> n" and nb: "n < 2 ^ 32"
  shows "(n \<le> 6530 \<longrightarrow> 10 < fl (16000000 / fl (fl (real n) * 245)))
       \<and> (6531 \<le> n \<longrightarrow> fl (16000000 / fl (fl (real n) * 245)) < 10)
       \<and> 0.95 \<le> fl (real n)"
proof -
  define a :: real where "a = 1 - 1 / 2 ^ 23"
  define b :: real where "b = 1 + 1 / 2 ^ 23"
  have ab: "0 < a" "a < 1" "1 < b" "b < 2" "1/2 < a" "0.95 \<le> a"
    by (simp_all add: a_def b_def)
  define r where "r = real n"
  have r: "1 \<le> r" "r < 2 ^ 32" using n1 nb by (simp_all add: r_def)
  define t where "t = fl r"
  have c1: "(1::real) / 2 ^ 126 \<le> 1" "(2::real) ^ 32 \<le> 2 ^ 127" by simp_all
  have "1 / 2 ^ 126 \<le> r" "r \<le> 2 ^ 127" using r c1 by linarith+
  then have t: "r * a \<le> t" "t \<le> r * b"
    using single_precision_pos [OF sp, of r] by (simp_all add: t_def a_def b_def)
  have ra: "a \<le> r * a"
  proof -
    have "1 * a \<le> r * a" using r ab by (intro mult_right_mono) simp_all
    then show ?thesis by (simp only: mult_1)
  qed
  have rb: "r * b \<le> 2 ^ 32 * 2"
    using r ab by (intro mult_mono) simp_all
  have tl: "0.95 \<le> t" using t ra ab by linarith
  have tu: "t \<le> 2 ^ 32 * 2" using t rb by linarith
  define x where "x = t * 245"
  have c2: "(1::real) / 2 ^ 126 \<le> 0.95 * 245" "(2::real) ^ 32 * 2 * 245 \<le> 2 ^ 127"
    by simp_all
  have xr: "1 / 2 ^ 126 \<le> x" "x \<le> 2 ^ 127"
    using tl tu c2 unfolding x_def by linarith+
  define p where "p = fl x"
  have p: "x * a \<le> p" "p \<le> x * b"
    using single_precision_pos [OF sp xr] by (simp_all add: p_def a_def b_def)
  have pl: "245 * r * a * a \<le> p"
  proof -
    have "(r * a) * 245 * a \<le> t * 245 * a"
      using t ab by (intro mult_right_mono) simp_all
    then have "(r * a) * 245 * a \<le> p" using p unfolding x_def by linarith
    then show ?thesis by (simp add: mult_ac)
  qed
  have pu: "p \<le> 245 * r * b * b"
  proof -
    have "t * 245 * b \<le> (r * b) * 245 * b"
      using t ab by (intro mult_right_mono) simp_all
    then have "p \<le> (r * b) * 245 * b" using p unfolding x_def by linarith
    then show ?thesis by (simp add: mult_ac)
  qed
  have ppos: "61 < p"
  proof -
    have "245 * 1 * (1/2) * (1/2) \<le> 245 * r * a * a"
      using r ab by (intro mult_mono) simp_all
    moreover have "(61::real) < 245 * 1 * (1/2) * (1/2)" by simp
    ultimately show ?thesis using pl by linarith
  qed
  have pup: "p < 2 ^ 43"
  proof -
    have "245 * r * b * b \<le> 245 * 2 ^ 32 * 2 * 2"
      using r ab by (intro mult_mono) simp_all
    moreover have "(245::real) * 2 ^ 32 * 2 * 2 < 2 ^ 43" by simp
    ultimately show ?thesis using pu by linarith
  qed
  define y where "y = 16000000 / p"
  have yl: "1 / 2 ^ 126 \<le> y"
  proof -
    have "16000000 / 2 ^ 43 \<le> 16000000 / p"
      using pup ppos by (intro divide_left_mono) simp_all
    moreover have "(1::real) / 2 ^ 126 \<le> 16000000 / 2 ^ 43" by simp
    ultimately show ?thesis unfolding y_def by linarith
  qed
  have yu: "y \<le> 2 ^ 127"
  proof -
    have "16000000 / p \<le> 16000000 / 61" using ppos by (intro divide_left_mono) simp_all
    moreover have "(16000000::real) / 61 \<le> 2 ^ 127" by simp
    ultimately show ?thesis unfolding y_def by linarith
  qed
  define q where "q = fl y"
  have q: "y * a \<le> q" "q \<le> y * b"
    using single_precision_pos [OF sp yl yu] by (simp_all add: q_def a_def b_def)
  have lo: "10 < q" if "n \<le> 6530"
  proof -
    have rn: "r \<le> 6530" using that by (simp add: r_def)
    have "245 * r * b * b \<le> 245 * 6530 * b * b"
      using rn ab by (intro mult_right_mono mult_left_mono) simp_all
    then have "p \<le> 245 * 6530 * b * b" using pu by linarith
    moreover have "0 < 245 * 6530 * b * b" using ab by simp
    ultimately have "16000000 / (245 * 6530 * b * b) \<le> y"
      unfolding y_def using ppos by (intro divide_left_mono) simp_all
    then have "16000000 / (245 * 6530 * b * b) * a \<le> y * a"
      using ab by (intro mult_right_mono) simp_all
    moreover have "10 < 16000000 / (245 * 6530 * b * b) * a"
      by (simp add: a_def b_def field_simps)
    ultimately show ?thesis using q by linarith
  qed
  have hi: "q < 10" if "6531 \<le> n"
  proof -
    have rn: "6531 \<le> r" using that by (simp add: r_def)
    have "245 * 6531 * a * a \<le> 245 * r * a * a"
      using rn ab by (intro mult_right_mono mult_left_mono) simp_all
    then have "245 * 6531 * a * a \<le> p" using pl by linarith
    moreover have "0 < 245 * 6531 * a * a" using ab by simp
    ultimately have "y \<le> 16000000 / (245 * 6531 * a * a)"
      unfolding y_def by (intro divide_left_mono) simp_all
    then have "y * b \<le> 16000000 / (245 * 6531 * a * a) * b"
      using ab by (intro mult_right_mono) simp_all
    moreover have "16000000 / (245 * 6531 * a * a) * b < 10"
      by (simp add: a_def b_def field_simps)
    ultimately show ?thesis using q by linarith
  qed
  show ?thesis using lo hi tl by (simp add: q_def y_def p_def x_def t_def r_def)
qed

lemma rounded_threshold:
  assumes "single_precision fl"
  shows "0 < fl 0.9 \<and> fl 0.9 < 0.95"
proof -
  have "(1::real) / 2 ^ 126 \<le> 0.9" "(0.9::real) \<le> 2 ^ 127" by simp_all
  then have "0.9 * (1 - 1 / 2 ^ 23) \<le> fl 0.9 \<and> fl 0.9 \<le> 0.9 * (1 + 1 / 2 ^ 23)"
    by (rule single_precision_pos [OF assms])
  moreover have "(0::real) < 0.9 * (1 - 1 / 2 ^ 23)" "(0.9::real) * (1 + 1 / 2 ^ 23) < 0.95"
    by simp_all
  ultimately show ?thesis by linarith
qed

text \<open>
  Claim C5. \<open>ticks\<close> is the tick interval and \<open>raw_rps\<close> the value of
  \<open>16000000 / (ticks * 245)\<close> as the source computes it in single precision. For a
  handle that is not \<open>NULL\<close>, \<open>do_update_rps\<close> returns the encoder unchanged when the
  interval is below 0.9, and unchanged when \<open>raw_rps\<close> exceeds 10; otherwise it changes
  only \<open>current_rps\<close>, to the value of \<open>0.5 * current_rps + 0.5 * raw_rps\<close> in single
  precision. The rounding does not change the decision: \<open>raw_rps\<close> exceeds 10 exactly when
  the quotient in exact arithmetic does.
\<close>

theorem do_update_rps_glitch_handling:
  assumes "single_precision fl"
  shows "do_update_rps fl (Some e) =
           (let ticks = real (unat (tick_interval e));
                raw_rps = fl (16000000 / fl (fl ticks * 245))
            in if ticks < 0.9 then Some e
               else if raw_rps > 10 then Some e
               else Some (e\<lparr>current_rps :=
                             fl (fl (0.5 * current_rps e) + fl (0.5 * raw_rps))\<rparr>))
       \<and> (0.9 \<le> real (unat (tick_interval e)) \<longrightarrow>
            (fl (16000000 / fl (fl (real (unat (tick_interval e))) * 245)) > 10
             \<longleftrightarrow> 16000000 / (real (unat (tick_interval e)) * 245) > 10))"
proof -
  define n where "n = unat (tick_interval e)"
  have nb: "n < 2 ^ 32"
    unfolding n_def using unsigned_less [of "tick_interval e"] by simp
  note th = rounded_threshold [OF assms]
  show ?thesis
  proof (cases "n = 0")
    case True
    have "fl 0 = 0" using assms by (simp add: single_precision_def)
    then show ?thesis
      using True th
      by (simp add: do_update_rps_def Let_def n_def [symmetric])
  next
    case False
    then have n1: "1 \<le> n" by simp
    then have rn: "\<not> real n < 0.9" by simp
    note ro = new_rps_rounded [OF assms n1 nb]
    note ex = new_rps_exact [OF n1]
    have nt: "\<not> fl (real n) < fl 0.9" using ro th by linarith
    consider "n \<le> 6530" | "6531 \<le> n" by linarith
    then show ?thesis
    proof cases
      case 1
      then have "10 < fl (16000000 / fl (fl (real n) * 245))"
        and "10 < 16000000 / (real n * 245)"
        using ro ex by blast+
      then show ?thesis
        using nt rn
        by (simp add: do_update_rps_def Let_def n_def [symmetric] F_CPU_def
            PULSES_PER_ROTATION_def RPS_UPPER_DISCARD_LIMIT_def RPS_ALPHA_def)
    next
      case 2
      then have "fl (16000000 / fl (fl (real n) * 245)) < 10"
        and "16000000 / (real n * 245) < 10"
        using ro ex by blast+
      then show ?thesis
        using nt rn
        by (simp add: do_update_rps_def Let_def n_def [symmetric] F_CPU_def
            PULSES_PER_ROTATION_def RPS_UPPER_DISCARD_LIMIT_def RPS_ALPHA_def)
    qed
  qed
qed

text \<open>
  In exact arithmetic: an interval of 10000 ticks gives 6.53 revolutions per second,
  which enters the filter; the interval of 1000 ticks gives 65.3, which is discarded.
\<close>

theorem do_update_rps_glitch_handling_witness:
  "single_precision (\<lambda>x. x)
   \<and> 0.9 \<le> real (unat (tick_interval slow_encoder))
   \<and> do_update_rps (\<lambda>x. x) (Some slow_encoder)
       = Some (slow_encoder\<lparr>current_rps := 0.5 * 1 + 0.5 * (16000000 / (10000 * 245))\<rparr>)
   \<and> \<not> 16000000 / (real (unat (tick_interval slow_encoder)) * 245) > (10::real)
   \<and> do_update_rps (\<lambda>x. x) (Some fast_encoder) = Some fast_encoder"
proof -
  have h: "single_precision (\<lambda>x. x)" by (simp add: single_precision_def)
  have n: "unat (tick_interval slow_encoder) = 10000"
    by (simp add: slow_encoder_def tick_interval_def)
  have m: "unat (tick_interval fast_encoder) = 1000"
    by (simp add: fast_encoder_def tick_interval_def)
  have c: "current_rps slow_encoder = 1" by (simp add: slow_encoder_def)
  show ?thesis
    using do_update_rps_glitch_handling [OF h, of slow_encoder]
      do_update_rps_glitch_handling [OF h, of fast_encoder] h
    unfolding n m c Let_def
    by simp
qed

subsection \<open>The compare value of a duty cycle\<close>

lemma calculate_oc_value_from_dc_unat:
  assumes "duty \<le> 100"
  shows "unat (calculate_oc_value_from_dc duty) = (255 * (100 - unat duty)) div 100"
proof -
  have d: "unat duty \<le> 100" using assms by (simp add: word_le_nat_alt)
  have s: "unat (100 - duty) = 100 - unat duty"
    using assms by (simp add: unat_sub)
  have "unat (255 :: 32 word) * unat (100 - duty) < 2 ^ LENGTH(32)"
    using d s by simp
  then have "unat (255 * (100 - duty)) = unat (255 :: 32 word) * unat (100 - duty)"
    by (simp only: unat_mult_lem)
  then have m: "unat (255 * (100 - duty)) = 255 * (100 - unat duty)"
    using s by simp
  have q: "unat ((255 * (100 - duty)) div 100) = (255 * (100 - unat duty)) div 100"
    by (simp only: unat_div m) simp
  have "(255 * (100 - unat duty)) div 100 \<le> 255" using d by simp
  then show ?thesis
    unfolding calculate_oc_value_from_dc_def
    using q by (simp add: unsigned_ucast_eq unsigned_take_bit_eq take_bit_eq_mod)
qed

text \<open>
  Claim C6 says that the compare value is \<open>round(255 * (100 - duty) / 100)\<close>. At
  \<open>duty = 2\<close> the quotient is 249.9: the source gives 249, rounding gives 250.
\<close>

theorem compare_value_not_rounded:
  "calculate_oc_value_from_dc 2 = 249 \<and> compare_rounded 2 = 250"
  by (simp add: calculate_oc_value_from_dc_def compare_rounded_def round_def)

text \<open>
  Claim C6, amended. For every duty cycle in [0, 100] the compare value is
  \<open>255 * (100 - duty) / 100\<close> with the fraction dropped (the integer division of the
  source); duty 0 gives 255, duty 100 gives 0 and duty 50 gives 127.
\<close>

theorem compare_value_truncates:
  assumes "duty \<le> 100"
  shows "uint (calculate_oc_value_from_dc duty) = \<lfloor>255 * (100 - real (unat duty)) / 100\<rfloor>
       \<and> calculate_oc_value_from_dc 0 = 255
       \<and> calculate_oc_value_from_dc 100 = 0
       \<and> calculate_oc_value_from_dc 50 = 127"
proof -
  have d: "unat duty \<le> 100" using assms by (simp add: word_le_nat_alt)
  have "255 * (100 - real (unat duty)) / 100
        = real (255 * (100 - unat duty)) / real 100"
    using d by (simp add: of_nat_diff)
  then have "\<lfloor>255 * (100 - real (unat duty)) / 100\<rfloor>
             = int ((255 * (100 - unat duty)) div 100)"
    by (simp only: floor_divide_of_nat_eq)
  also have "\<dots> = int (unat (calculate_oc_value_from_dc duty))"
    by (simp only: calculate_oc_value_from_dc_unat [OF assms])
  finally have "uint (calculate_oc_value_from_dc duty)
                = \<lfloor>255 * (100 - real (unat duty)) / 100\<rfloor>"
    by simp
  then show ?thesis by (simp add: calculate_oc_value_from_dc_def)
qed

theorem compare_value_truncates_witness:
  "(2 :: 32 word) \<le> 100
   \<and> uint (calculate_oc_value_from_dc 2) = \<lfloor>255 * (100 - real (unat (2 :: 32 word))) / 100\<rfloor>
   \<and> uint (calculate_oc_value_from_dc 2) = 249"
proof -
  have h: "(2 :: 32 word) \<le> 100" by simp
  have v: "uint (calculate_oc_value_from_dc 2) = 249"
    by (simp add: calculate_oc_value_from_dc_def)
  show ?thesis using compare_value_truncates [OF h] h v by blast
qed

subsection \<open>Bit 7 of a command byte\<close>

lemma mask_command_buffer_eq: "mask_command_buffer b = b AND 0x7F"
proof -
  have m16: "(0x7F :: 16 word) = mask 7" by (simp add: mask_eq_exp_minus_1)
  have m8: "(0x7F :: 8 word) = mask 7" by (simp add: mask_eq_exp_minus_1)
  show ?thesis
    unfolding mask_command_buffer_def m16 m8
    by (rule bit_word_eqI) (auto simp: bit_simps)
qed

text \<open>
  With no interrupt inside \<open>do_parse_command\<close> and no command running (otherwise the
  function returns before it looks at the buffer), parsing the byte \<open>b\<close> and parsing
  \<open>b AND 0x7F\<close> give the same state, and the \<open>switch\<close> selects the same command for both;
  0xF7 and 0x77 are both the forward command, although the buffer is an \<open>int8_t\<close> and
  0xF7 is negative in it.
\<close>

lemma parse_ignores_bit7:
  "do_parse_command (s\<lparr>g_command_buffer := b, g_flag_command_running := 0\<rparr>)
     = do_parse_command (s\<lparr>g_command_buffer := b AND 0x7F, g_flag_command_running := 0\<rparr>)
   \<and> switch_command (mask_command_buffer b)
     = switch_command (mask_command_buffer (b AND 0x7F))
   \<and> sint (0xF7 :: 8 word) = - 9
   \<and> switch_command (mask_command_buffer 0xF7) = COMMAND_FORWARD
   \<and> switch_command (mask_command_buffer 0x77) = COMMAND_FORWARD"
proof -
  have 1: "do_parse_command (s\<lparr>g_command_buffer := b, g_flag_command_running := 0\<rparr>)
     = do_parse_command (s\<lparr>g_command_buffer := b AND 0x7F, g_flag_command_running := 0\<rparr>)"
    by (simp add: do_parse_command_def Let_def mask_command_buffer_eq word_bw_assocs)
  have 2: "switch_command (mask_command_buffer b)
     = switch_command (mask_command_buffer (b AND 0x7F))"
    by (simp add: mask_command_buffer_eq word_bw_assocs)
  have 3: "sint (0xF7 :: 8 word) = - 9" by simp
  have 4: "switch_command (mask_command_buffer 0xF7) = COMMAND_FORWARD"
    "switch_command (mask_command_buffer 0x77) = COMMAND_FORWARD"
    by (simp_all add: switch_command_def mask_command_buffer_def)
  show ?thesis using 1 2 3 4 by blast
qed

text \<open>
  Claim C7 says that every received byte is classified as the byte with bit 7 cleared,
  0xF7 as 0x77. In \<open>pending_w_state\<close> a byte is pending and \<open>main\<close> calls
  \<open>do_parse_command\<close>. The function stores the masked byte; the running flag is still 0,
  so the receive handler accepts the byte that arrives next and stores it in the buffer
  as it is; the \<open>switch\<close> then loads that byte. When it is 0xF7 the command is
  \<open>COMMAND_UNKNOWN\<close> and the direction ports stay as they were; when it is 0x77 the
  command is \<open>COMMAND_FORWARD\<close>.
\<close>

theorem unmasked_byte_reaches_switch:
  "pc pending_w_state = L_cmd
   \<and> g_flag_command_received pending_w_state \<noteq> 0
   \<and> g_flag_command_running pending_w_state = 0
   \<and> PORTD pending_w_state = 0x0C
   \<and> PORTB pending_w_state = 0
   \<and> g_command_buffer
        (do_parse_command_interrupted pi_platform pending_w_state [USART_RX_vect 0x80 0xF7])
       = 0xF7
   \<and> switch_command 0xF7 = COMMAND_UNKNOWN
   \<and> PORTD
        (do_parse_command_interrupted pi_platform pending_w_state [USART_RX_vect 0x80 0xF7])
       = 0x0C
   \<and> PORTB
        (do_parse_command_interrupted pi_platform pending_w_state [USART_RX_vect 0x80 0xF7])
       = 0
   \<and> g_flag_command_running
        (do_parse_command_interrupted pi_platform pending_w_state [USART_RX_vect 0x80 0xF7])
       = 1
   \<and> switch_command 0x77 = COMMAND_FORWARD
   \<and> PORTD
        (do_parse_command_interrupted pi_platform pending_w_state [USART_RX_vect 0x80 0x77])
       = 0x8C
   \<and> PORTB
        (do_parse_command_interrupted pi_platform pending_w_state [USART_RX_vect 0x80 0x77])
       = 4"
  by (simp add: do_parse_command_interrupted_def parse_mask_def parse_switch_def
      pending_w_state_eq eval_defs)

subsection \<open>No control step while idle\<close>

text \<open>
  Claim C8. While no command runs: at the control step of the loop \<open>main\<close> only moves
  on (\<open>do_advance_pids\<close> is not called, also when \<open>g_flag_pid\<close> is set); a sample
  interrupt only sets \<open>g_flag_pid\<close>; and over any events during which the system stays
  idle, the compare registers, the PWM counter register and both controllers are as
  they were.
\<close>

theorem no_control_while_idle:
  assumes "g_flag_command_running s = 0"
  shows "(pc s = L_pid \<longrightarrow> step pf s MainStep = s\<lparr>pc := L_cmd\<rparr>)
       \<and> step pf s TIMER2_COMPA_vect = s\<lparr>g_flag_pid := 1\<rparr>
       \<and> (idle_during pf s es \<longrightarrow>
             OCR0A (run pf s es) = OCR0A s \<and> OCR0B (run pf s es) = OCR0B s
           \<and> TCNT0 (run pf s es) = TCNT0 s
           \<and> pid (g_motor_1 (run pf s es)) = pid (g_motor_1 s)
           \<and> pid (g_motor_2 (run pf s es)) = pid (g_motor_2 s))"
  using assms idle_run_outputs [of pf s es]
  by (simp add: main_step_def isr_defs Let_def)

text \<open>
  In \<open>idle_tick_state\<close> the sample flag is set and \<open>main\<close> stands before the control
  step; two more sample interrupts and a whole iteration of the loop follow.
\<close>

theorem no_control_while_idle_witness:
  "g_flag_command_running idle_tick_state = 0
   \<and> pc idle_tick_state = L_pid
   \<and> g_flag_pid idle_tick_state = 1
   \<and> idle_during pi_platform idle_tick_state
        [TIMER2_COMPA_vect, MainStep, MainStep, MainStep, TIMER2_COMPA_vect, MainStep]
   \<and> step pi_platform idle_tick_state MainStep = idle_tick_state\<lparr>pc := L_cmd\<rparr>
   \<and> step pi_platform idle_tick_state TIMER2_COMPA_vect = idle_tick_state\<lparr>g_flag_pid := 1\<rparr>
   \<and> OCR0A (run pi_platform idle_tick_state
        [TIMER2_COMPA_vect, MainStep, MainStep, MainStep, TIMER2_COMPA_vect, MainStep])
       = OCR0A idle_tick_state
   \<and> pid (g_motor_1 (run pi_platform idle_tick_state
        [TIMER2_COMPA_vect, MainStep, MainStep, MainStep, TIMER2_COMPA_vect, MainStep]))
       = pid (g_motor_1 idle_tick_state)"
proof -
  have h1: "g_flag_command_running idle_tick_state = 0"
    and h2: "pc idle_tick_state = L_pid"
    and h3: "g_flag_pid idle_tick_state = 1"
    by (simp_all add: idle_tick_state_eq boot_state_def)
  have h4: "idle_during pi_platform idle_tick_state
        [TIMER2_COMPA_vect, MainStep, MainStep, MainStep, TIMER2_COMPA_vect, MainStep]"
    by (simp add: idle_tick_state_eq eval_defs)
  show ?thesis
    using no_control_while_idle [OF h1, where pf = pi_platform
        and es = "[TIMER2_COMPA_vect, MainStep, MainStep, MainStep, TIMER2_COMPA_vect, MainStep]"]
      h1 h2 h3 h4
    by blast
qed

subsection \<open>Every command runs at the on speed\<close>

lemma IS_BIT_SET_bit: "IS_BIT_SET r n \<longleftrightarrow> bit r n"
  by (simp add: IS_BIT_SET_def bit_iff_and_push_bit_not_eq_0)

lemma IS_BIT_SET_CLR_BIT: "IS_BIT_SET (CLR_BIT r m) n \<longleftrightarrow> IS_BIT_SET r n \<and> m \<noteq> n"
  by (auto simp: IS_BIT_SET_bit CLR_BIT_def bit_simps dest: bit_imp_le_length)

lemma parse_idle_fields:
  assumes "g_flag_command_running t = 0"
  shows "setpoint (g_motor_1 (do_parse_command t)) = motor_on_rps"
    and "setpoint (g_motor_2 (do_parse_command t)) = motor_on_rps"
    and "g_flag_command_running (do_parse_command t) = 1"
  using assms by (simp_all add: do_parse_command_def Let_def)

lemma parse_idle_ports:
  assumes "g_flag_command_running t = 0"
  shows "(do_parse_command t)\<lparr>PORTB := p, PORTD := q, g_command_buffer := c\<rparr>
         = t\<lparr>g_motor_1 := (g_motor_1 t)\<lparr>setpoint := motor_on_rps\<rparr>,
             g_motor_2 := (g_motor_2 t)\<lparr>setpoint := motor_on_rps\<rparr>,
             g_flag_command_running := 1,
             PORTB := p, PORTD := q, g_command_buffer := c\<rparr>"
proof -
  define u where "u = t\<lparr>g_motor_1 := (g_motor_1 t)\<lparr>setpoint := motor_on_rps\<rparr>,
             g_motor_2 := (g_motor_2 t)\<lparr>setpoint := motor_on_rps\<rparr>,
             g_command_buffer := mask_command_buffer (g_command_buffer t)\<rparr>"
  have "do_parse_command t
        = (set_motor_direction (switch_command (g_command_buffer u)) u)
            \<lparr>g_flag_command_running := 1\<rparr>"
    using assms by (simp add: do_parse_command_def Let_def u_def)
  then have "(do_parse_command t)\<lparr>PORTB := p, PORTD := q, g_command_buffer := c\<rparr>
        = ((set_motor_direction (switch_command (g_command_buffer u)) u)
            \<lparr>PORTB := p, PORTD := q\<rparr>)\<lparr>g_flag_command_running := 1, g_command_buffer := c\<rparr>"
    by simp
  also have "\<dots> = (u\<lparr>PORTB := p, PORTD := q\<rparr>)\<lparr>g_flag_command_running := 1,
        g_command_buffer := c\<rparr>"
    by (simp only: set_motor_direction_ports)
  finally show ?thesis by (simp add: u_def)
qed

lemma parse_stop_pins:
  assumes "g_flag_command_running t = 0" and "g_command_buffer t = 0x78"
  shows "\<not> IS_BIT_SET (PORTD (do_parse_command t)) PORTD7
       \<and> \<not> IS_BIT_SET (PORTB (do_parse_command t)) PORTB1
       \<and> \<not> IS_BIT_SET (PORTB (do_parse_command t)) PORTB0
       \<and> \<not> IS_BIT_SET (PORTB (do_parse_command t)) PORTB2"
proof -
  have "switch_command (mask_command_buffer 0x78) = COMMAND_STOP"
    by (simp add: switch_command_def mask_command_buffer_def)
  then show ?thesis
    using assms
    by (simp add: do_parse_command_def Let_def set_motor_direction_def IS_BIT_SET_CLR_BIT
        PORTB0_def PORTB1_def PORTB2_def PORTD7_def)
qed

lemma parse_interrupted_fields:
  assumes "g_flag_command_running t = 0" and "interrupts_only es"
  shows "setpoint (g_motor_1 (do_parse_command_interrupted pf t es)) = motor_on_rps
       \<and> setpoint (g_motor_2 (do_parse_command_interrupted pf t es)) = motor_on_rps
       \<and> g_flag_command_running (do_parse_command_interrupted pf t es) = 1"
proof -
  have "setpoint (g_motor_1 (parse_mask t)) = motor_on_rps"
    "setpoint (g_motor_2 (parse_mask t)) = motor_on_rps"
    by (simp_all add: parse_mask_def Let_def)
  then have "setpoint (g_motor_1 (run pf (parse_mask t) es)) = motor_on_rps"
    "setpoint (g_motor_2 (run pf (parse_mask t) es)) = motor_on_rps"
    using interrupt_run_fields [OF assms(2), of pf "parse_mask t"] by simp_all
  then show ?thesis
    using assms(1) by (simp add: do_parse_command_interrupted_def parse_switch_def Let_def)
qed

text \<open>
  Claim C9. \<open>parsed t b\<close> below is the state after \<open>do_parse_command\<close> has parsed the
  byte \<open>b\<close> with no command running. For every byte, \<open>'x'\<close> (0x78) and unrecognised
  bytes included, both setpoints are \<open>motor_on_rps\<close> = 1.0 and the command is started,
  also when interrupts are served inside the function; after \<open>'x'\<close> the four direction
  pins are clear; two bytes lead to states that differ at most in the direction ports
  and the stored byte. In every run from the entry of the loop both setpoints are 1.0
  whenever a command is running, up to the call of \<open>do_on_command_complete\<close>. And
  whenever in such a run a command is running, the sample flag is set and \<open>main\<close> stands
  before the control step, the step regulates both motors towards 1.0: for each motor it
  calls \<open>PID_Advance\<close> with the error \<open>1.0 - current_rps\<close>, keeps the controller that the
  call leaves, and writes the compare value of the returned duty cycle to the motor's
  compare register (\<open>OCR0B\<close> for motor 1, \<open>OCR0A\<close> for motor 2).
\<close>

theorem every_command_runs_at_on_speed:
  assumes "boot s0"
  shows "motor_on_rps = 1
       \<and> setpoint (g_motor_1 (parsed t b)) = motor_on_rps
       \<and> setpoint (g_motor_2 (parsed t b)) = motor_on_rps
       \<and> g_flag_command_running (parsed t b) = 1
       \<and> \<not> IS_BIT_SET (PORTD (parsed t 0x78)) PORTD7
       \<and> \<not> IS_BIT_SET (PORTB (parsed t 0x78)) PORTB1
       \<and> \<not> IS_BIT_SET (PORTB (parsed t 0x78)) PORTB0
       \<and> \<not> IS_BIT_SET (PORTB (parsed t 0x78)) PORTB2
       \<and> (parsed t b)\<lparr>PORTB := p, PORTD := q, g_command_buffer := c\<rparr>
           = (parsed t b')\<lparr>PORTB := p, PORTD := q, g_command_buffer := c\<rparr>
       \<and> (g_flag_command_running (run pf s0 es) \<noteq> 0 \<and> pc (run pf s0 es) \<noteq> L_done_run \<longrightarrow>
            setpoint (g_motor_1 (run pf s0 es)) = motor_on_rps
          \<and> setpoint (g_motor_2 (run pf s0 es)) = motor_on_rps)
       \<and> (g_flag_command_running t = 0 \<and> interrupts_only irqs \<longrightarrow>
            setpoint (g_motor_1 (do_parse_command_interrupted pf t irqs)) = motor_on_rps
          \<and> setpoint (g_motor_2 (do_parse_command_interrupted pf t irqs)) = motor_on_rps
          \<and> g_flag_command_running (do_parse_command_interrupted pf t irqs) = 1)
       \<and> (let s = run pf s0 es;
               r1 = PID_Advance pf (pid (g_motor_1 s)) (float_of pf SAMPLE_TIME_S)
                      (float_of pf (motor_on_rps - current_rps (hall_encoder (g_motor_1 s))));
               r2 = PID_Advance pf (pid (g_motor_2 s)) (float_of pf SAMPLE_TIME_S)
                      (float_of pf (motor_on_rps - current_rps (hall_encoder (g_motor_2 s))))
           in g_flag_command_running s \<noteq> 0 \<and> g_flag_pid s \<noteq> 0 \<and> pc s = L_pid \<longrightarrow>
                step pf s MainStep =
                  s\<lparr>g_motor_1 := (g_motor_1 s)\<lparr>pid := snd r1\<rparr>,
                    OCR0B := calculate_oc_value_from_dc (float_to_uint32 (fst r1)),
                    g_motor_2 := (g_motor_2 s)\<lparr>pid := snd r2\<rparr>,
                    OCR0A := calculate_oc_value_from_dc (float_to_uint32 (fst r2)),
                    TCNT0 := 0,
                    pc := L_pid_clr\<rparr>)"
proof -
  have "on_speed s0" using assms by (simp add: boot_def on_speed_def)
  then have os: "on_speed (run pf s0 es)" by (rule on_speed_run)
  then have 1: "g_flag_command_running (run pf s0 es) \<noteq> 0 \<and> pc (run pf s0 es) \<noteq> L_done_run \<longrightarrow>
            setpoint (g_motor_1 (run pf s0 es)) = motor_on_rps
          \<and> setpoint (g_motor_2 (run pf s0 es)) = motor_on_rps"
    by (simp add: on_speed_def)
  have i: "g_flag_command_running (t\<lparr>g_command_buffer := x, g_flag_command_running := 0\<rparr>) = 0"
    for x by simp
  have 2: "setpoint (g_motor_1 (parsed t b)) = motor_on_rps"
    "setpoint (g_motor_2 (parsed t b)) = motor_on_rps"
    "g_flag_command_running (parsed t b) = 1"
    unfolding parsed_def using parse_idle_fields [OF i] by simp_all
  have 3: "\<not> IS_BIT_SET (PORTD (parsed t 0x78)) PORTD7
       \<and> \<not> IS_BIT_SET (PORTB (parsed t 0x78)) PORTB1
       \<and> \<not> IS_BIT_SET (PORTB (parsed t 0x78)) PORTB0
       \<and> \<not> IS_BIT_SET (PORTB (parsed t 0x78)) PORTB2"
    unfolding parsed_def by (rule parse_stop_pins) simp_all
  have 4: "(parsed t b)\<lparr>PORTB := p, PORTD := q, g_command_buffer := c\<rparr>
           = (parsed t b')\<lparr>PORTB := p, PORTD := q, g_command_buffer := c\<rparr>"
    unfolding parsed_def by (simp add: parse_idle_ports [OF i])
  have 5: "motor_on_rps = 1" by (simp add: motor_on_rps_def)
  have 6: "g_flag_command_running t = 0 \<and> interrupts_only irqs \<longrightarrow>
            setpoint (g_motor_1 (do_parse_command_interrupted pf t irqs)) = motor_on_rps
          \<and> setpoint (g_motor_2 (do_parse_command_interrupted pf t irqs)) = motor_on_rps
          \<and> g_flag_command_running (do_parse_command_interrupted pf t irqs) = 1"
    using parse_interrupted_fields [of t irqs pf] by blast
  define s where "s = run pf s0 es"
  define r1 where "r1 = PID_Advance pf (pid (g_motor_1 s)) (float_of pf SAMPLE_TIME_S)
                      (float_of pf (motor_on_rps - current_rps (hall_encoder (g_motor_1 s))))"
  define r2 where "r2 = PID_Advance pf (pid (g_motor_2 s)) (float_of pf SAMPLE_TIME_S)
                      (float_of pf (motor_on_rps - current_rps (hall_encoder (g_motor_2 s))))"
  have 7: "step pf s MainStep =
             s\<lparr>g_motor_1 := (g_motor_1 s)\<lparr>pid := snd r1\<rparr>,
               OCR0B := calculate_oc_value_from_dc (float_to_uint32 (fst r1)),
               g_motor_2 := (g_motor_2 s)\<lparr>pid := snd r2\<rparr>,
               OCR0A := calculate_oc_value_from_dc (float_to_uint32 (fst r2)),
               TCNT0 := 0,
               pc := L_pid_clr\<rparr>"
    if h: "g_flag_command_running s \<noteq> 0 \<and> g_flag_pid s \<noteq> 0 \<and> pc s = L_pid"
  proof -
    have sp: "setpoint (g_motor_1 s) = motor_on_rps" "setpoint (g_motor_2 s) = motor_on_rps"
      using os h by (simp_all add: on_speed_def s_def)
    show ?thesis
      using h sp
      by (simp add: main_step_def do_advance_pids_def Let_def split_def r1_def r2_def)
  qed
  show ?thesis
    unfolding Let_def s_def [symmetric] r1_def [symmetric] r2_def [symmetric]
    using 1 [folded s_def] 2 3 4 5 6 7 by blast
qed

text \<open>
  The stop command of the concrete run: \<open>'x'\<close> has been parsed, the direction pins are
  clear, a sample interrupt has been served and \<open>main\<close> stands before the control step.
  With the controller of \<open>pi_platform\<close> the step asks for a duty cycle of 4 per cent
  (compare value 244) on both motors; \<open>do_on_command_complete\<close> sets 255. A byte stored
  by the receive handler inside the parse does not change the setpoints either.
\<close>

theorem every_command_runs_at_on_speed_witness:
  "boot boot_state
   \<and> stop_control_state = run pi_platform boot_state stop_control_events
   \<and> g_flag_command_running stop_control_state \<noteq> 0
   \<and> g_flag_pid stop_control_state \<noteq> 0
   \<and> pc stop_control_state = L_pid
   \<and> pc stop_control_state \<noteq> L_done_run
   \<and> g_flag_command_running boot_state = 0
   \<and> interrupts_only [USART_RX_vect 0x80 0xF8]
   \<and> g_command_buffer stop_control_state = 0x78
   \<and> PORTD stop_control_state = 0x0C
   \<and> PORTB stop_control_state = 0
   \<and> setpoint (g_motor_1 stop_control_state) = 1
   \<and> setpoint (g_motor_2 stop_control_state) = 1
   \<and> OCR0B stop_control_state = 0
   \<and> OCR0A stop_control_state = 0
   \<and> OCR0B (step pi_platform stop_control_state MainStep) = 244
   \<and> OCR0A (step pi_platform stop_control_state MainStep) = 244
   \<and> pid (g_motor_1 (step pi_platform stop_control_state MainStep))
       = pi_init\<lparr>pi_integral := 2 / 125\<rparr>
   \<and> pid (g_motor_2 (step pi_platform stop_control_state MainStep))
       = pi_init\<lparr>pi_integral := 2 / 125\<rparr>
   \<and> pc (step pi_platform stop_control_state MainStep) = L_pid_clr
   \<and> setpoint (g_motor_1 (parsed boot_state 0x78)) = 1
   \<and> setpoint (g_motor_2 (parsed boot_state 0x78)) = 1
   \<and> g_flag_command_running (parsed boot_state 0x78) = 1
   \<and> setpoint (g_motor_1
        (do_parse_command_interrupted pi_platform boot_state [USART_RX_vect 0x80 0xF8])) = 1
   \<and> g_flag_command_running
        (do_parse_command_interrupted pi_platform boot_state [USART_RX_vect 0x80 0xF8]) = 1"
proof -
  have e: "stop_control_state = run pi_platform boot_state stop_control_events"
    by (simp only: stop_control_state_def)
  have h: "g_flag_command_running stop_control_state \<noteq> 0"
    "g_flag_pid stop_control_state \<noteq> 0"
    "pc stop_control_state = L_pid"
    "pc stop_control_state \<noteq> L_done_run"
    "g_flag_command_running boot_state = 0"
    "interrupts_only [USART_RX_vect 0x80 0xF8]"
    by (simp_all add: stop_control_state_eq boot_state_def interrupts_only_def)
  have v: "g_command_buffer stop_control_state = 0x78"
    "PORTD stop_control_state = 0x0C"
    "PORTB stop_control_state = 0"
    "OCR0B stop_control_state = 0"
    "OCR0A stop_control_state = 0"
    by (simp_all add: stop_control_state_eq boot_state_def)
  define r1 where "r1 = PID_Advance pi_platform (pid (g_motor_1 stop_control_state))
      (float_of pi_platform SAMPLE_TIME_S)
      (float_of pi_platform
         (motor_on_rps - current_rps (hall_encoder (g_motor_1 stop_control_state))))"
  define r2 where "r2 = PID_Advance pi_platform (pid (g_motor_2 stop_control_state))
      (float_of pi_platform SAMPLE_TIME_S)
      (float_of pi_platform
         (motor_on_rps - current_rps (hall_encoder (g_motor_2 stop_control_state))))"
  note th = every_command_runs_at_on_speed [OF boot_boot_state, where pf = pi_platform
      and es = stop_control_events and t = boot_state and b = "0x78"
      and irqs = "[USART_RX_vect 0x80 0xF8]",
      unfolded Let_def e [symmetric] r1_def [symmetric] r2_def [symmetric]]
  have st: "step pi_platform stop_control_state MainStep =
      stop_control_state\<lparr>g_motor_1 := (g_motor_1 stop_control_state)\<lparr>pid := snd r1\<rparr>,
        OCR0B := calculate_oc_value_from_dc (float_to_uint32 (fst r1)),
        g_motor_2 := (g_motor_2 stop_control_state)\<lparr>pid := snd r2\<rparr>,
        OCR0A := calculate_oc_value_from_dc (float_to_uint32 (fst r2)),
        TCNT0 := 0,
        pc := L_pid_clr\<rparr>"
    using th h by blast
  have rv: "snd r1 = pi_init\<lparr>pi_integral := 2 / 125\<rparr>"
    "snd r2 = pi_init\<lparr>pi_integral := 2 / 125\<rparr>"
    "calculate_oc_value_from_dc (float_to_uint32 (fst r1)) = 244"
    "calculate_oc_value_from_dc (float_to_uint32 (fst r2)) = 244"
    by (simp_all add: r1_def r2_def stop_control_state_eq eval_defs)
  have o: "OCR0B (step pi_platform stop_control_state MainStep) = 244"
    "OCR0A (step pi_platform stop_control_state MainStep) = 244"
    "pid (g_motor_1 (step pi_platform stop_control_state MainStep))
       = pi_init\<lparr>pi_integral := 2 / 125\<rparr>"
    "pid (g_motor_2 (step pi_platform stop_control_state MainStep))
       = pi_init\<lparr>pi_integral := 2 / 125\<rparr>"
    "pc (step pi_platform stop_control_state MainStep) = L_pid_clr"
    unfolding st by (simp_all add: rv)
  have on: "motor_on_rps = 1" by (simp add: motor_on_rps_def)
  have p: "setpoint (g_motor_1 stop_control_state) = 1"
    "setpoint (g_motor_2 stop_control_state) = 1"
    "setpoint (g_motor_1 (parsed boot_state 0x78)) = 1"
    "setpoint (g_motor_2 (parsed boot_state 0x78)) = 1"
    "g_flag_command_running (parsed boot_state 0x78) = 1"
    "setpoint (g_motor_1
        (do_parse_command_interrupted pi_platform boot_state [USART_RX_vect 0x80 0xF8])) = 1"
    "g_flag_command_running
        (do_parse_command_interrupted pi_platform boot_state [USART_RX_vect 0x80 0xF8]) = 1"
    using th h unfolding on by blast+
  show ?thesis
    using boot_boot_state e h v o p by blast
qed

subsection \<open>The counter is 0 while idle\<close>

text \<open>
  Claim C10. In every state that a run from the entry of the loop reaches, if no
  command is running then \<open>g_command_timer_pids\<close> is 0, unless \<open>main\<close> stands between
  the two assignments that end a command; in particular at the top of the loop body.
\<close>

theorem idle_implies_timer_zero:
  assumes "boot s0"
  shows "(g_flag_command_running (run pf s0 es) = 0 \<and> pc (run pf s0 es) \<noteq> L_done_tmr \<longrightarrow>
            g_command_timer_pids (run pf s0 es) = 0)
       \<and> (g_flag_command_running (run pf s0 es) = 0 \<and> pc (run pf s0 es) = L_rps1 \<longrightarrow>
            g_command_timer_pids (run pf s0 es) = 0)"
proof -
  have "idle_timer_zero (run pf s0 es)"
    using assms by (intro idle_timer_zero_run boot_idle_timer_zero)
  then show ?thesis by (auto simp: idle_timer_zero_def)
qed

text \<open>
  The whole concrete run: the forward command is received, parsed, runs for 376
  samples and completes.
\<close>

theorem idle_implies_timer_zero_witness:
  "boot boot_state
   \<and> completed_w_state = run pi_platform boot_state forward_command_events
   \<and> g_flag_command_running completed_w_state = 0
   \<and> pc completed_w_state = L_rps1
   \<and> pc completed_w_state \<noteq> L_done_tmr
   \<and> g_command_timer_pids completed_w_state = 0"
proof -
  have e: "completed_w_state = run pi_platform boot_state forward_command_events"
    unfolding completed_w_state_def completing_w_state_def running_w_state_def
      pending_w_state_def forward_command_events_def run_append ..
  have h1: "g_flag_command_running completed_w_state = 0"
    and h2: "pc completed_w_state = L_rps1"
    by (simp_all add: completed_w_state_eq)
  show ?thesis
    using idle_implies_timer_zero [OF boot_boot_state, of pi_platform forward_command_events]
      boot_boot_state e h1 h2
    by (simp add: e [symmetric])
qed

end
